theory Spec2Isabelle
  imports Complex_Main
begin

section \<open>Python values used by the two stages\<close>

text \<open>
  Stage 1 (\<^verbatim>\<open>stage1.py\<close>) extracts faces from a panel; stage 3 (\<^verbatim>\<open>stage3.py\<close>) pastes
  replacements back. Coordinates are Python integers (\<open>int\<close>); the centre and half-side
  computations of \<^verbatim>\<open>to_square_bbox\<close> use true division, so they are Python floats. All
  floats that occur there are integers or half-integers, which a double represents
  exactly below \<open>2^52\<close> in magnitude; they are modelled as \<open>real\<close>. The model is exact for
  a square box with coordinates below \<open>2^52\<close> and for any box with coordinates below
  \<open>2^51\<close>. Beyond that range the doubles of the code round (and, beyond the range of a
  double, the division raises \<^verbatim>\<open>OverflowError\<close>), which the model does not follow: a
  claim about every box carries a bound on the coordinates.
\<close>

type_synonym point = "int \<times> int"
type_synonym bbox = "int \<times> int \<times> int \<times> int"

text \<open>Python's \<^verbatim>\<open>int(x)\<close> on a float: truncation toward zero.\<close>

definition py_int :: "real \<Rightarrow> int" where
  "py_int r = (if r < 0 then \<lceil>r\<rceil> else \<lfloor>r\<rfloor>)"

datatype py_error =
    is_FileNotFoundError: FileNotFoundError string
  | FileExistsError string
  | IsADirectoryError string
  | NotADirectoryError string
  | UnidentifiedImageError string
  | JSONDecodeError string
  | KeyError string
  | ValueError string
  | TypeError
  | IndexError

section \<open>Box normalisation (stage1.py, lines 12--34)\<close>

definition to_square_bbox :: "bbox \<Rightarrow> bbox" where
  "to_square_bbox bbox =
     (case bbox of (x1, y1, x2, y2) \<Rightarrow>
        let width = x2 - x1;
            height = y2 - y1;
            center_x = real_of_int x1 + real_of_int width / 2;
            center_y = real_of_int y1 + real_of_int height / 2;
            side_length = max width height;
            new_x1 = py_int (center_x - real_of_int side_length / 2);
            new_y1 = py_int (center_y - real_of_int side_length / 2);
            new_x2 = py_int (center_x + real_of_int side_length / 2);
            new_y2 = py_int (center_y + real_of_int side_length / 2)
        in (new_x1, new_y1, new_x2, new_y2))"

text \<open>
  \<^verbatim>\<open>landmarks\<close> is an \<open>N \<times> 2\<close> array of floats, here the list of its rows.
  \<^verbatim>\<open>np.min\<close> and \<^verbatim>\<open>np.max\<close> raise \<^verbatim>\<open>ValueError\<close> on an empty array.
\<close>

definition get_padded_landmark_bbox :: "(real \<times> real) list \<Rightarrow> real \<Rightarrow> py_error + bbox" where
  "get_padded_landmark_bbox landmarks padding_factor =
     (if landmarks = [] then Inl (ValueError ''zero-size array to reduction operation'')
      else
        let min_x = py_int (Min (set (map fst landmarks)));
            min_y = py_int (Min (set (map snd landmarks)));
            max_x = py_int (Max (set (map fst landmarks)));
            max_y = py_int (Max (set (map snd landmarks)));
            width = max_x - min_x;
            height = max_y - min_y;
            pad_x = py_int (real_of_int width * padding_factor);
            pad_y = py_int (real_of_int height * padding_factor)
        in Inr (min_x - pad_x, min_y - pad_y, max_x + pad_x, max_y + pad_y))"


section \<open>Console output\<close>

text \<open>
  Every \<^verbatim>\<open>print\<close> of the two stages is one constructor, carrying the values that
  the f-string interpolates.
\<close>

datatype jval = JInt int | JStr string | JArr "jval list"

datatype msg =
    ManualBoxAdded bbox
  | ErrSourceNotFound string
  | ProcessingSource string
  | SavingResultsTo string
  | RunningAuto
  | NoFacesDetected
  | AutoFound nat
  | RunningManual
  | DrawInstructions
  | BoxesReset
  | ManualFinished nat
  | CroppingFaces
  | ProcessedFace nat string
  | SavedMetadata string
  | NoNewFaces
  | StartingStage3
  | LoadedPanel string
  | ErrPanelNotFound string
  | LoadedMetadata nat string
  | ErrMetadataNotFound string
  | WarnReenactedNotFound jval string
  | ResizingFace jval "jval list"
  | PastingFace jval "jval list"
  | RecombinationComplete
  | RecombinedFaces nat
  | FinalPanelSaved string
  | BeforeArtifactRemoval
  | RecombinationFinished
  | NoReenactedFaces

section \<open>Manual selection (stage1.py, lines 37--58 and 102--123)\<close>

datatype mouse_event = EVENT_LBUTTONDOWN | EVENT_LBUTTONUP | EVENT_OTHER

text \<open>
  The module-level variables of stage 1. \<open>image_for_drawing\<close> is the display copy of the
  source image, represented by the rectangles \<^verbatim>\<open>cv2.rectangle\<close> has drawn on it since it
  was copied.
\<close>

record ui_globals =
  ref_points :: "point list"
  cropping :: bool
  image_for_drawing :: "(point \<times> point) list"

text \<open>
  The callback works on the globals, on \<^verbatim>\<open>param\<close> (the list of boxes) and on the
  console. \<^verbatim>\<open>ref_points[1]\<close> raises \<^verbatim>\<open>IndexError\<close> when a release arrives with no
  press before it; the mutations made before the raise stay.
\<close>

definition manual_crop_callback ::
  "mouse_event \<Rightarrow> int \<Rightarrow> int \<Rightarrow> ui_globals \<times> bbox list \<times> msg list
     \<Rightarrow> (ui_globals \<times> bbox list \<times> msg list) \<times> py_error option" where
  "manual_crop_callback event x y st =
     (case st of (g, param, out) \<Rightarrow>
        if event = EVENT_LBUTTONDOWN then
          ((g\<lparr>ref_points := [(x, y)], cropping := True\<rparr>, param, out), None)
        else if event = EVENT_LBUTTONUP then
          (let g1 = g\<lparr>ref_points := ref_points g @ [(x, y)], cropping := False\<rparr> in
           case ref_points g1 of
             start_point # end_point # _ \<Rightarrow>
               let dx = \<bar>fst end_point - fst start_point\<bar>;
                   dy = \<bar>snd end_point - snd start_point\<bar>;
                   side_length = max dx dy;
                   square_end_point = (fst start_point + side_length, snd start_point + side_length);
                   g2 = g1\<lparr>image_for_drawing := image_for_drawing g1 @ [(start_point, square_end_point)]\<rparr>;
                   box = (fst start_point, snd start_point, fst square_end_point, snd square_end_point)
               in ((g2, param @ [box], out @ [ManualBoxAdded box]), None)
           | _ \<Rightarrow> ((g1, param, out), Some IndexError))
        else (st, None))"

text \<open>
  The selection loop of \<^verbatim>\<open>prepare_faces\<close> runs until the operator presses \<^verbatim>\<open>q\<close>. Its
  input is the sequence of what happens at the window: a mouse event (OpenCV calls the
  callback, and prints and drops an exception the callback raises) or the key that one
  \<^verbatim>\<open>cv2.waitKey(1) & 0xFF\<close> returns (113 is \<^verbatim>\<open>ord("q")\<close>, 114 is \<^verbatim>\<open>ord("r")\<close>). When
  the sequence ends before a \<^verbatim>\<open>q\<close> the loop has not returned: \<open>None\<close>.
\<close>

datatype ui_event = Mouse mouse_event int int | Key nat

fun manual_loop ::
  "ui_event list \<Rightarrow> ui_globals \<times> bbox list \<times> msg list
     \<Rightarrow> (ui_globals \<times> bbox list \<times> msg list) option" where
  "manual_loop [] st = None"
| "manual_loop (Mouse event x y # evs) st =
     manual_loop evs (fst (manual_crop_callback event x y st))"
| "manual_loop (Key key # evs) (g, square_bounding_boxes, out) =
     (if key = 114 then
        manual_loop evs (g\<lparr>image_for_drawing := []\<rparr>, [], out @ [BoxesReset])
      else if key = 113 then Some (g, square_bounding_boxes, out)
      else manual_loop evs (g, square_bounding_boxes, out))"


section \<open>Images, files and paths\<close>

text \<open>
  An image is the term of the imaging-library calls that built it, over decoded bitmaps
  (a content identifier and a size): the model fixes no pixel semantics. Its size follows
  the library: \<^verbatim>\<open>crop\<close> yields the size of the box, also where the box leaves the image;
  \<^verbatim>\<open>resize\<close> yields the requested size; \<^verbatim>\<open>convert\<close> and \<^verbatim>\<open>paste\<close> keep the size.
  Both \<^verbatim>\<open>resize\<close> calls of the program use the Lanczos filter. The checks the library
  makes on its own arguments and on file contents it cannot encode are not modelled.
\<close>

datatype image =
    Bitmap nat "int \<times> int"
  | Convert string image
  | Crop image bbox
  | Resize image "int \<times> int"
  | Paste image image point image

fun image_size :: "image \<Rightarrow> int \<times> int" where
  "image_size (Bitmap c sz) = sz"
| "image_size (Convert mode im) = image_size im"
| "image_size (Crop im box) =
     (case box of (x1, y1, x2, y2) \<Rightarrow> (max 0 (x2 - x1), max 0 (y2 - y1)))"
| "image_size (Resize im sz) = sz"
| "image_size (Paste im src xy msk) = image_size im"

text \<open>
  A Python \<^verbatim>\<open>dict\<close> with string keys, in insertion order, as \<^verbatim>\<open>json.dump\<close> writes it.
  A tuple is written as a JSON array, so tuples and lists are both \<open>JArr\<close>.
\<close>

type_synonym dict = "(string \<times> jval) list"

datatype fdata = ImageFile image | JsonFile "dict list"

record world =
  files :: "string \<rightharpoonup> fdata"
  dirs :: "string set"
  stdout :: "msg list"

definition print :: "world \<Rightarrow> msg list \<Rightarrow> world" where
  "print w ms = w\<lparr>stdout := stdout w @ ms\<rparr>"

text \<open>
  The file system is what the operating system finds under a path as it is written:
  \<open>files w p\<close> is the content of the regular file that \<open>p\<close> names, \<open>dirs w\<close> holds the
  names of the directories. The model resolves no \<^verbatim>\<open>.\<close>, \<^verbatim>\<open>..\<close> or link. A path passes
  through each of its prefixes that a slash follows; with trailing slashes it names what
  the path without them names.
\<close>

fun ancestors_from :: "string \<Rightarrow> string \<Rightarrow> string list" where
  "ancestors_from pre [] = []"
| "ancestors_from pre (c # cs) =
     (if c = CHR ''/'' then [pre] else []) @ ancestors_from (pre @ [c]) cs"

definition ancestors :: "string \<Rightarrow> string list" where
  "ancestors p = ancestors_from [] p"

definition rstrip_slash :: "string \<Rightarrow> string" where
  "rstrip_slash p = rev (dropWhile (\<lambda>c. c = CHR ''/'') (rev p))"

text \<open>
  What \<^verbatim>\<open>open\<close> meets under a path: a regular file; a prefix that is a regular file
  (\<^verbatim>\<open>NotADirectoryError\<close>); a directory (\<^verbatim>\<open>IsADirectoryError\<close>); or nothing
  (\<^verbatim>\<open>FileNotFoundError\<close>).
\<close>

datatype entry = Missing | NotADirectory | Directory | Regular fdata

definition lookup_path :: "world \<Rightarrow> string \<Rightarrow> entry" where
  "lookup_path w p =
     (case files w p of
        Some f \<Rightarrow> Regular f
      | None \<Rightarrow>
          if filter (\<lambda>a. files w a \<noteq> None) (ancestors p) \<noteq> [] then NotADirectory
          else if p \<in> dirs w \<or> rstrip_slash p \<in> dirs w then Directory
          else Missing)"

definition Image_open :: "world \<Rightarrow> string \<Rightarrow> py_error + image" where
  "Image_open w path =
     (case lookup_path w path of
        Missing \<Rightarrow> Inl (FileNotFoundError path)
      | NotADirectory \<Rightarrow> Inl (NotADirectoryError path)
      | Directory \<Rightarrow> Inl (IsADirectoryError path)
      | Regular (ImageFile im) \<Rightarrow> Inr im
      | Regular (JsonFile d) \<Rightarrow> Inl (UnidentifiedImageError path))"

text \<open>
  \<^verbatim>\<open>Image.save\<close> and \<^verbatim>\<open>json.dump\<close> write the file under the name given. Stage 1 saves
  under names it has built itself, \<^verbatim>\<open>face_<n>.png\<close> and \<^verbatim>\<open>metadata.json\<close> in the
  directory it has just made. The name of the panel that stage 3 saves comes from the
  caller: the encoder is picked by its extension (PNG encodes the RGBA panel, JPEG
  refuses it), and a name that is a directory cannot be written; the statements about
  that save take a name that is \<open>savable\<close>.
\<close>

definition Image_save :: "image \<Rightarrow> string \<Rightarrow> world \<Rightarrow> world" where
  "Image_save im path w = w\<lparr>files := (files w)(path \<mapsto> ImageFile im)\<rparr>"

definition json_load :: "world \<Rightarrow> string \<Rightarrow> py_error + dict list" where
  "json_load w path =
     (case lookup_path w path of
        Missing \<Rightarrow> Inl (FileNotFoundError path)
      | NotADirectory \<Rightarrow> Inl (NotADirectoryError path)
      | Directory \<Rightarrow> Inl (IsADirectoryError path)
      | Regular (JsonFile d) \<Rightarrow> Inr d
      | Regular (ImageFile im) \<Rightarrow> Inl (JSONDecodeError path))"

definition json_dump :: "dict list \<Rightarrow> string \<Rightarrow> world \<Rightarrow> world" where
  "json_dump d path w = w\<lparr>files := (files w)(path \<mapsto> JsonFile d)\<rparr>"

text \<open>
  \<^verbatim>\<open>os.path\<close> on POSIX. \<^verbatim>\<open>basename\<close> is what follows the last slash; \<^verbatim>\<open>dirname\<close> is
  what precedes it, without trailing slashes unless it consists of slashes only;
  \<^verbatim>\<open>splitext\<close> splits at the last dot of the base name unless only dots precede it;
  \<^verbatim>\<open>join\<close> restarts at an absolute second component.
\<close>

definition basename :: "string \<Rightarrow> string" where
  "basename p = rev (takeWhile (\<lambda>c. c \<noteq> CHR ''/'') (rev p))"

definition dirname :: "string \<Rightarrow> string" where
  "dirname p =
     (let head = rev (dropWhile (\<lambda>c. c \<noteq> CHR ''/'') (rev p))
      in if filter (\<lambda>c. c \<noteq> CHR ''/'') head \<noteq> []
         then rev (dropWhile (\<lambda>c. c = CHR ''/'') (rev head))
         else head)"

definition splitext :: "string \<Rightarrow> string \<times> string" where
  "splitext p =
     (let base = basename p;
          after_dot = takeWhile (\<lambda>c. c \<noteq> CHR ''.'') (rev base);
          before_dot = take (length base - length after_dot - 1) base;
          dot_index = length p - length after_dot - 1
      in if filter (\<lambda>c. c = CHR ''.'') base \<noteq> [] \<and> filter (\<lambda>c. c \<noteq> CHR ''.'') before_dot \<noteq> []
         then (take dot_index p, drop dot_index p)
         else (p, []))"

definition join :: "string \<Rightarrow> string \<Rightarrow> string" where
  "join a b =
     (if take 1 b = ''/'' then b
      else if a = [] \<or> take 1 (rev a) = ''/'' then a @ b
      else a @ ''/'' @ b)"

text \<open>
  \<^verbatim>\<open>os.makedirs(name, exist_ok=True)\<close>: the empty name raises \<^verbatim>\<open>FileNotFoundError\<close>; a
  name that, without its trailing slashes, is a regular file raises \<^verbatim>\<open>FileExistsError\<close>;
  a name that passes through a regular file raises \<^verbatim>\<open>NotADirectoryError\<close>. Otherwise the
  directory and every directory the name passes through exist afterwards (the empty
  prefix of an absolute name is no name).
\<close>

definition makedirs :: "string \<Rightarrow> world \<Rightarrow> world \<times> (py_error + unit)" where
  "makedirs name w =
     (if name = [] then (w, Inl (FileNotFoundError name))
      else if files w (rstrip_slash name) \<noteq> None then (w, Inl (FileExistsError name))
      else if filter (\<lambda>a. files w a \<noteq> None) (ancestors (rstrip_slash name)) \<noteq> []
        then (w, Inl (NotADirectoryError name))
      else (w\<lparr>dirs := dirs w \<union> set (filter (\<lambda>a. a \<noteq> [])
                                           (name # rstrip_slash name # ancestors name))\<rparr>,
            Inr ()))"

text \<open>\<^verbatim>\<open>str(n)\<close> for a non-negative integer, as the f-string of the file name uses it.\<close>

fun str_nat :: "nat \<Rightarrow> string" where
  "str_nat n =
     (if n < 10 then [''0123456789'' ! n]
      else str_nat (n div 10) @ [''0123456789'' ! (n mod 10)])"

declare str_nat.simps [simp del]

section \<open>Extraction (stage1.py, \<^verbatim>\<open>prepare_faces\<close>)\<close>

text \<open>
  The collaborators of \<^verbatim>\<open>prepare_faces\<close>: what the face detector returns for the source
  image (the key points \<^verbatim>\<open>face.kps\<close> of each face, in detection order) and what happens
  at the selection window.
\<close>

record env =
  detected :: "(real \<times> real) list list"
  ui_events :: "ui_event list"

text \<open>Lines 97--100: the loop over the detected faces.\<close>

fun auto_boxes :: "(real \<times> real) list list \<Rightarrow> py_error + bbox list" where
  "auto_boxes [] = Inr []"
| "auto_boxes (kps # faces) =
     (case get_padded_landmark_bbox kps 1.0 of
        Inl e \<Rightarrow> Inl e
      | Inr landmark_bbox \<Rightarrow>
          (case auto_boxes faces of
             Inl e \<Rightarrow> Inl e
           | Inr rest \<Rightarrow> Inr (to_square_bbox landmark_bbox # rest)))"

text \<open>
  Lines 86--126: the choice of the boxes by \<^verbatim>\<open>mode\<close>. The text of the \<^verbatim>\<open>ValueError\<close> is
  written without its inner quotation marks.
\<close>

definition select_boxes ::
  "env \<Rightarrow> string \<Rightarrow> ui_globals \<Rightarrow> world
     \<Rightarrow> (ui_globals \<times> world \<times> (py_error + bbox list)) option" where
  "select_boxes e mode g w =
     (if mode = ''auto'' then
        (let w1 = print w [RunningAuto];
             faces = detected e
         in if faces = [] then Some (g, print w1 [NoFacesDetected], Inr [])
            else Some (g, print w1 [AutoFound (length faces)], auto_boxes faces))
      else if mode = ''manual'' then
        (let w1 = print w [RunningManual, DrawInstructions];
             g1 = g\<lparr>image_for_drawing := []\<rparr>
         in case manual_loop (ui_events e) (g1, [], []) of
              None \<Rightarrow> None
            | Some (g2, square_bounding_boxes, out) \<Rightarrow>
                Some (g2, print w1 (out @ [ManualFinished (length square_bounding_boxes)]),
                      Inr square_bounding_boxes))
      else Some (g, w, Inl (ValueError ''Mode must be either auto or manual'')))"

text \<open>Lines 150--157: the metadata of one face.\<close>

definition face_metadata ::
  "nat \<Rightarrow> string \<Rightarrow> int \<times> int \<Rightarrow> point \<Rightarrow> bbox \<Rightarrow> string \<Rightarrow> dict" where
  "face_metadata face_id face_saved_path original_size paste_coordinates coords_tuple image_path =
     [(''face_id'', JInt (int face_id)),
      (''face_image_512px_path'', JStr face_saved_path),
      (''original_size'', JArr [JInt (fst original_size), JInt (snd original_size)]),
      (''paste_coordinates'', JArr [JInt (fst paste_coordinates), JInt (snd paste_coordinates)]),
      (''original_bbox_square'',
         (case coords_tuple of (x1, y1, x2, y2) \<Rightarrow> JArr [JInt x1, JInt y1, JInt x2, JInt y2])),
      (''source_image'', JStr image_path)]"

text \<open>
  Lines 134--159: the loop over the boxes, \<open>i\<close> being the index of \<^verbatim>\<open>enumerate\<close>.
  The boxes are tuples of integers already, so \<^verbatim>\<open>tuple(map(int, coords))\<close> is the box
  itself.
\<close>

fun save_faces ::
  "image \<Rightarrow> string \<Rightarrow> string \<Rightarrow> nat \<Rightarrow> bbox list \<Rightarrow> world \<times> dict list \<Rightarrow> world \<times> dict list" where
  "save_faces source_img_pil image_path specific_output_dir i [] st = st"
| "save_faces source_img_pil image_path specific_output_dir i (coords_tuple # rest) st =
     (let face_id = i;
          cropped_face = Crop source_img_pil coords_tuple;
          original_size = image_size cropped_face;
          paste_coordinates = (fst coords_tuple, fst (snd coords_tuple));
          resized_face = Resize cropped_face (512, 512);
          face_filename = ''face_'' @ str_nat face_id @ ''.png'';
          face_saved_path = join specific_output_dir face_filename;
          w1 = Image_save resized_face face_saved_path (fst st);
          record = face_metadata face_id face_saved_path original_size paste_coordinates
                     coords_tuple image_path;
          w2 = print w1 [ProcessedFace face_id face_saved_path]
      in save_faces source_img_pil image_path specific_output_dir (Suc i) rest
           (w2, snd st @ [record]))"

text \<open>Lines 129--171: the shared final step.\<close>

definition finish_faces ::
  "image \<Rightarrow> string \<Rightarrow> string \<Rightarrow> bbox list \<Rightarrow> world \<Rightarrow> world \<times> dict list" where
  "finish_faces source_img_pil image_path specific_output_dir square_bounding_boxes w =
     (if length square_bounding_boxes > 0 then
        (let st = save_faces source_img_pil image_path specific_output_dir 0
                    square_bounding_boxes (print w [CroppingFaces], []);
             all_faces_metadata = snd st;
             metadata_path = join specific_output_dir ''metadata.json'';
             w1 = json_dump all_faces_metadata metadata_path (fst st)
         in (print w1 [SavedMetadata metadata_path], all_faces_metadata))
      else (print w [NoNewFaces], []))"

definition prepare_faces ::
  "env \<Rightarrow> ui_globals \<Rightarrow> world \<Rightarrow> string \<Rightarrow> string \<Rightarrow> string
     \<Rightarrow> (ui_globals \<times> world \<times> (py_error + dict list)) option" where
  "prepare_faces e g w image_path mode output_dir =
     (case Image_open w image_path of
        Inl err \<Rightarrow>
          if is_FileNotFoundError err
          then Some (g, print w [ErrSourceNotFound image_path], Inr [])
          else Some (g, w, Inl err)
      | Inr im \<Rightarrow>
          (let source_img_pil = Convert ''RGB'' im;
               base_filename = basename image_path;
               source_name = fst (splitext base_filename);
               specific_output_dir = join output_dir source_name
           in case makedirs specific_output_dir w of
                (w1, Inl err) \<Rightarrow> Some (g, w1, Inl err)
              | (w1, Inr u) \<Rightarrow>
                  (case select_boxes e mode g
                          (print w1 [ProcessingSource base_filename,
                                     SavingResultsTo specific_output_dir]) of
                     None \<Rightarrow> None
                   | Some (g2, w2, Inl err) \<Rightarrow> Some (g2, w2, Inl err)
                   | Some (g2, w2, Inr square_bounding_boxes) \<Rightarrow>
                       (case finish_faces source_img_pil image_path specific_output_dir
                               square_bounding_boxes w2 of
                          (w3, all_faces_metadata) \<Rightarrow> Some (g2, w3, Inr all_faces_metadata)))))"


section \<open>Recombination (stage3.py, \<^verbatim>\<open>recombine_panel\<close>)\<close>

text \<open>\<^verbatim>\<open>face_data[key]\<close>: the first entry under the key, \<^verbatim>\<open>KeyError\<close> without one.\<close>

definition getitem :: "dict \<Rightarrow> string \<Rightarrow> py_error + jval" where
  "getitem d k = (case map_of d k of None \<Rightarrow> Inl (KeyError k) | Some v \<Rightarrow> Inr v)"

text \<open>\<^verbatim>\<open>os.path.basename\<close> takes a string.\<close>

definition path_of :: "jval \<Rightarrow> py_error + string" where
  "path_of v = (case v of JStr p \<Rightarrow> Inr p | JInt i \<Rightarrow> Inl TypeError | JArr xs \<Rightarrow> Inl TypeError)"

text \<open>\<^verbatim>\<open>tuple(v)\<close>: the items of an array, the characters of a string.\<close>

definition py_tuple :: "jval \<Rightarrow> py_error + jval list" where
  "py_tuple v =
     (case v of
        JArr xs \<Rightarrow> Inr xs
      | JStr p \<Rightarrow> Inr (map (\<lambda>c. JStr [c]) p)
      | JInt i \<Rightarrow> Inl TypeError)"

text \<open>A size and a position are two integers for \<^verbatim>\<open>resize\<close> and \<^verbatim>\<open>paste\<close>.\<close>

definition int_pair :: "jval list \<Rightarrow> py_error + int \<times> int" where
  "int_pair xs = (case xs of [JInt a, JInt b] \<Rightarrow> Inr (a, b) | _ \<Rightarrow> Inl TypeError)"

text \<open>
  Lines 52--64: one replacement that was found is resized and pasted. \<^verbatim>\<open>resize\<close> returns
  a copy when the size asked for is the size the image has, and otherwise raises
  \<^verbatim>\<open>ValueError\<close> for a width or height below 1.
\<close>

definition paste_face ::
  "jval \<Rightarrow> dict \<Rightarrow> image \<Rightarrow> world \<times> image \<times> nat \<Rightarrow> world \<times> (py_error + image \<times> nat)" where
  "paste_face face_id face_data reenacted_face_512px st =
     (case st of (w, original_manga_panel, recombined_count) \<Rightarrow>
      case getitem face_data ''original_size'' of Inl err \<Rightarrow> (w, Inl err) | Inr v1 \<Rightarrow>
      case py_tuple v1 of Inl err \<Rightarrow> (w, Inl err) | Inr orig_size \<Rightarrow>
      case getitem face_data ''paste_coordinates'' of Inl err \<Rightarrow> (w, Inl err) | Inr v2 \<Rightarrow>
      case py_tuple v2 of Inl err \<Rightarrow> (w, Inl err) | Inr paste_coords \<Rightarrow>
        let w1 = print w [ResizingFace face_id orig_size] in
      case int_pair orig_size of Inl err \<Rightarrow> (w1, Inl err) | Inr sz \<Rightarrow>
        if image_size reenacted_face_512px \<noteq> sz \<and> (fst sz < 1 \<or> snd sz < 1)
        then (w1, Inl (ValueError ''height and width must be > 0''))
        else
        let face_to_paste = Resize reenacted_face_512px sz;
            w2 = print w1 [PastingFace face_id paste_coords] in
      case int_pair paste_coords of Inl err \<Rightarrow> (w2, Inl err) | Inr xy \<Rightarrow>
        (w2, Inr (Paste original_manga_panel face_to_paste xy face_to_paste,
                  recombined_count + 1)))"

text \<open>Lines 38--64: the body of the loop over the records.\<close>

definition recombine_face ::
  "string \<Rightarrow> dict \<Rightarrow> world \<times> image \<times> nat \<Rightarrow> world \<times> (py_error + image \<times> nat)" where
  "recombine_face reenacted_faces_dir face_data st =
     (case st of (w, original_manga_panel, recombined_count) \<Rightarrow>
      case getitem face_data ''face_id'' of Inl err \<Rightarrow> (w, Inl err) | Inr face_id \<Rightarrow>
      case getitem face_data ''face_image_512px_path'' of Inl err \<Rightarrow> (w, Inl err) | Inr v \<Rightarrow>
      case path_of v of Inl err \<Rightarrow> (w, Inl err) | Inr p \<Rightarrow>
        let original_filename = basename p;
            reenacted_face_path = join reenacted_faces_dir original_filename in
      case Image_open w reenacted_face_path of
        Inl err \<Rightarrow>
          if is_FileNotFoundError err
          then (print w [WarnReenactedNotFound face_id reenacted_face_path],
                Inr (original_manga_panel, recombined_count))
          else (w, Inl err)
      | Inr im \<Rightarrow> paste_face face_id face_data (Convert ''RGBA'' im) st)"

fun recombine_loop ::
  "string \<Rightarrow> dict list \<Rightarrow> world \<times> image \<times> nat \<Rightarrow> world \<times> (py_error + image \<times> nat)" where
  "recombine_loop reenacted_faces_dir [] st = (fst st, Inr (snd st))"
| "recombine_loop reenacted_faces_dir (face_data # rest) st =
     (case recombine_face reenacted_faces_dir face_data st of
        (w, Inl err) \<Rightarrow> (w, Inl err)
      | (w, Inr st') \<Rightarrow> recombine_loop reenacted_faces_dir rest (w, st'))"

definition recombine_panel ::
  "world \<Rightarrow> string \<Rightarrow> string \<Rightarrow> string \<Rightarrow> string \<Rightarrow> world \<times> (py_error + unit)" where
  "recombine_panel w original_panel_path metadata_path reenacted_faces_dir output_path =
     (let w0 = print w [StartingStage3] in
      case Image_open w0 original_panel_path of
        Inl err \<Rightarrow>
          if is_FileNotFoundError err
          then (print w0 [ErrPanelNotFound original_panel_path], Inr ())
          else (w0, Inl err)
      | Inr im \<Rightarrow>
        let original_manga_panel = Convert ''RGBA'' im;
            w1 = print w0 [LoadedPanel original_panel_path] in
        case json_load w1 metadata_path of
          Inl err \<Rightarrow>
            if is_FileNotFoundError err
            then (print w1 [ErrMetadataNotFound metadata_path], Inr ())
            else (w1, Inl err)
        | Inr all_faces_metadata \<Rightarrow>
          (case recombine_loop reenacted_faces_dir all_faces_metadata
                  (print w1 [LoadedMetadata (length all_faces_metadata) metadata_path],
                   original_manga_panel, 0) of
             (w2, Inl err) \<Rightarrow> (w2, Inl err)
           | (w2, Inr (panel, recombined_count)) \<Rightarrow>
               if recombined_count > 0 then
                 (case makedirs (dirname output_path) w2 of
                    (w3, Inl err) \<Rightarrow> (w3, Inl err)
                  | (w3, Inr u) \<Rightarrow>
                      (print (Image_save panel output_path w3)
                         [RecombinationComplete, RecombinedFaces recombined_count,
                          FinalPanelSaved output_path, BeforeArtifactRemoval],
                       Inr ()))
               else (print w2 [RecombinationFinished, NoReenactedFaces], Inr ())))"


section \<open>Vocabulary of the properties\<close>

text \<open>Twice the centre of a box, so that the centre of an odd-sized box needs no fraction.\<close>

definition centre2 :: "bbox \<Rightarrow> point" where
  "centre2 b = (case b of (x1, y1, x2, y2) \<Rightarrow> (x1 + x2, y1 + y2))"

definition box_width :: "bbox \<Rightarrow> int" where
  "box_width b = (case b of (x1, y1, x2, y2) \<Rightarrow> x2 - x1)"

definition box_height :: "bbox \<Rightarrow> int" where
  "box_height b = (case b of (x1, y1, x2, y2) \<Rightarrow> y2 - y1)"

text \<open>
  The boxes with every coordinate below \<open>2^52\<close> in magnitude: on a square one of
  these the double arithmetic of \<^verbatim>\<open>to_square_bbox\<close> is exact.
\<close>

definition exact_box :: "bbox \<Rightarrow> bool" where
  "exact_box b =
     (case b of (x1, y1, x2, y2) \<Rightarrow>
        \<bar>x1\<bar> < 2 ^ 52 \<and> \<bar>y1\<bar> < 2 ^ 52 \<and> \<bar>x2\<bar> < 2 ^ 52 \<and> \<bar>y2\<bar> < 2 ^ 52)"

text \<open>The boxes a press at \<open>(px, py)\<close> followed by a release at \<open>(rx, ry)\<close> leaves in \<^verbatim>\<open>param\<close>.\<close>

definition press_release ::
  "int \<Rightarrow> int \<Rightarrow> int \<Rightarrow> int \<Rightarrow> ui_globals \<times> bbox list \<times> msg list
     \<Rightarrow> (ui_globals \<times> bbox list \<times> msg list) \<times> py_error option" where
  "press_release px py rx ry st =
     manual_crop_callback EVENT_LBUTTONUP rx ry
       (fst (manual_crop_callback EVENT_LBUTTONDOWN px py st))"

text \<open>A box as manual selection builds it: as wide as it is high, and not negative.\<close>

definition anchored :: "bbox \<Rightarrow> bool" where
  "anchored b = (box_width b = box_height b \<and> 0 \<le> box_width b)"

text \<open>
  A directory that can be made: its name is not empty, and neither the name nor a prefix
  that the name passes through is a regular file.
\<close>

definition can_make :: "world \<Rightarrow> string \<Rightarrow> bool" where
  "can_make w d = (d \<noteq> [] \<and> files w d = None \<and> list_all (\<lambda>a. files w a = None) (ancestors d))"

text \<open>
  A name under which the panel can be saved: its directory can be made, its extension is
  \<^verbatim>\<open>.png\<close>, and it is not the name of a directory.
\<close>

definition savable :: "world \<Rightarrow> string \<Rightarrow> bool" where
  "savable w out =
     (can_make w (dirname out) \<and> snd (splitext out) = ''.png'' \<and> out \<notin> dirs w)"

text \<open>The fields of a record as recombination needs them: a string, and pairs of integers.\<close>

definition stored_path :: "dict \<Rightarrow> string option" where
  "stored_path r =
     (case map_of r ''face_image_512px_path'' of
        None \<Rightarrow> None
      | Some v \<Rightarrow> (case v of JStr p \<Rightarrow> Some p | JInt i \<Rightarrow> None | JArr xs \<Rightarrow> None))"

definition stored_pair :: "dict \<Rightarrow> string \<Rightarrow> (int \<times> int) option" where
  "stored_pair r k =
     (case map_of r k of
        None \<Rightarrow> None
      | Some v \<Rightarrow>
          (case v of
             JArr xs \<Rightarrow> (case int_pair xs of Inl err \<Rightarrow> None | Inr ab \<Rightarrow> Some ab)
           | JInt i \<Rightarrow> None
           | JStr p \<Rightarrow> None))"

text \<open>
  What the specification asks of recombination for one record: the replacement is the
  image found in the replacement directory under the base name of the stored path; it is
  resized to \<open>original_size\<close> and pasted at \<open>paste_coordinates\<close>. With no file under
  that name there is nothing to paste. The identifier of the record plays no part.
\<close>

definition replacement_paste :: "world \<Rightarrow> string \<Rightarrow> dict \<Rightarrow> (image \<times> point) option" where
  "replacement_paste w dir r =
     (case stored_path r of
        None \<Rightarrow> None
      | Some p \<Rightarrow>
          (case lookup_path w (join dir (basename p)) of
             Regular f \<Rightarrow>
               (case f of
                  ImageFile repl \<Rightarrow>
                    (case stored_pair r ''original_size'' of
                       None \<Rightarrow> None
                     | Some sz \<Rightarrow>
                         (case stored_pair r ''paste_coordinates'' of
                            None \<Rightarrow> None
                          | Some xy \<Rightarrow> Some (Resize (Convert ''RGBA'' repl) sz, xy)))
                | JsonFile d \<Rightarrow> None)
           | Missing \<Rightarrow> None
           | NotADirectory \<Rightarrow> None
           | Directory \<Rightarrow> None))"

definition pastes_for :: "world \<Rightarrow> string \<Rightarrow> dict list \<Rightarrow> (image \<times> point) list" where
  "pastes_for w dir md = List.map_filter (replacement_paste w dir) md"

text \<open>The panel after a list of pastes, each masked by the pasted image itself.\<close>

fun apply_pastes :: "image \<Rightarrow> (image \<times> point) list \<Rightarrow> image" where
  "apply_pastes panel [] = panel"
| "apply_pastes panel (sp # ps) = apply_pastes (Paste panel (fst sp) (snd sp) (fst sp)) ps"

text \<open>
  A record that recombination can process: it has an identifier and a path string whose
  base name names a file (it is not empty, \<^verbatim>\<open>.\<close> or \<^verbatim>\<open>..\<close>), and under the looked-up
  name there is either nothing or an image; in the second case the record has a size of
  at least 1 by 1 and a position.
\<close>

definition replaceable :: "world \<Rightarrow> string \<Rightarrow> dict \<Rightarrow> bool" where
  "replaceable w dir r =
     (map_of r ''face_id'' \<noteq> None \<and>
      (case stored_path r of
         None \<Rightarrow> False
       | Some p \<Rightarrow>
           basename p \<noteq> [] \<and> basename p \<noteq> ''.'' \<and> basename p \<noteq> ''..'' \<and>
           (case lookup_path w (join dir (basename p)) of
              Missing \<Rightarrow> True
            | Regular f \<Rightarrow>
                (case f of
                   ImageFile repl \<Rightarrow>
                     (case stored_pair r ''original_size'' of
                        None \<Rightarrow> False
                      | Some sz \<Rightarrow>
                          stored_pair r ''paste_coordinates'' \<noteq> None
                          \<and> 1 \<le> fst sz \<and> 1 \<le> snd sz)
                 | JsonFile d \<Rightarrow> False)
            | NotADirectory \<Rightarrow> False
            | Directory \<Rightarrow> False)))"

text \<open>Two records that differ at most in \<open>face_id\<close>, and both have one.\<close>

definition same_but_face_id :: "dict \<Rightarrow> dict \<Rightarrow> bool" where
  "same_but_face_id r' r =
     (map_of r' ''face_id'' \<noteq> None \<and> map_of r ''face_id'' \<noteq> None
      \<and> map_of r' ''face_image_512px_path'' = map_of r ''face_image_512px_path''
      \<and> map_of r' ''original_size'' = map_of r ''original_size''
      \<and> map_of r' ''paste_coordinates'' = map_of r ''paste_coordinates'')"

text \<open>The inputs of the concrete runs below.\<close>

definition idle :: ui_globals where
  "idle = \<lparr>ref_points = [], cropping = False, image_for_drawing = []\<rparr>"

definition page_world :: world where
  "page_world = \<lparr>files = [''panels/page1.png'' \<mapsto> ImageFile (Bitmap 0 (800, 600))],
                  dirs = {''panels''}, stdout = []\<rparr>"

definition hero_record :: dict where
  "hero_record =
     [(''face_id'', JInt 0),
      (''face_image_512px_path'', JStr ''prepared/page1/hero.png''),
      (''original_size'', JArr [JInt 10, JInt 10]),
      (''paste_coordinates'', JArr [JInt 5, JInt 6]),
      (''original_bbox_square'', JArr [JInt 5, JInt 6, JInt 15, JInt 16]),
      (''source_image'', JStr ''page1.png'')]"

definition stage3_world :: world where
  "stage3_world =
     \<lparr>files = [''page1.png'' \<mapsto> ImageFile (Bitmap 0 (800, 600)),
                ''prepared/page1/metadata.json'' \<mapsto> JsonFile [hero_record],
                ''reenacted/hero.png'' \<mapsto> ImageFile (Bitmap 7 (512, 512)),
                ''reenacted/face_0.png'' \<mapsto> ImageFile (Bitmap 8 (512, 512))],
       dirs = {''prepared'', ''prepared/page1'', ''reenacted''}, stdout = []\<rparr>"

definition drawn_env :: env where
  "drawn_env = \<lparr>detected = [],
     ui_events = [Mouse EVENT_LBUTTONDOWN 5 6, Mouse EVENT_LBUTTONUP 15 12, Key 113]\<rparr>"

definition clicked_env :: env where
  "clicked_env = \<lparr>detected = [],
     ui_events = [Mouse EVENT_LBUTTONDOWN 5 5, Mouse EVENT_LBUTTONUP 5 5, Key 113]\<rparr>"

definition detected_env :: "(real \<times> real) list list \<Rightarrow> env" where
  "detected_env faces = \<lparr>detected = faces, ui_events = []\<rparr>"

definition drawn_record :: dict where
  "drawn_record =
     face_metadata 0 ''out/page1/face_0.png'' (10, 10) (5, 6) (5, 6, 15, 16) ''panels/page1.png''"



section \<open>The file system\<close>

lemma files_print [simp]: "files (print w ms) = files w"
  by (simp add: print_def)

lemma dirs_print [simp]: "dirs (print w ms) = dirs w"
  by (simp add: print_def)

lemma stdout_print [simp]: "stdout (print w ms) = stdout w @ ms"
  by (simp add: print_def)

lemma lookup_path_cong:
  "files w' = files w \<Longrightarrow> dirs w' = dirs w \<Longrightarrow> lookup_path w' = lookup_path w"
  by (rule ext) (simp add: lookup_path_def)

lemma lookup_path_print [simp]: "lookup_path (print w ms) = lookup_path w"
  by (rule lookup_path_cong) simp_all

lemma lookup_path_Regular: "lookup_path w p = Regular f \<longleftrightarrow> files w p = Some f"
  by (simp add: lookup_path_def split: option.splits)

lemma Image_open_image: "files w p = Some (ImageFile im) \<Longrightarrow> Image_open w p = Inr im"
  by (simp add: Image_open_def lookup_path_def)

lemma Image_open_Inr: "Image_open w p = Inr im \<longleftrightarrow> files w p = Some (ImageFile im)"
  by (auto simp: Image_open_def lookup_path_Regular [symmetric] split: entry.splits fdata.splits)

lemma Image_open_Missing:
  "lookup_path w p = Missing \<Longrightarrow> Image_open w p = Inl (FileNotFoundError p)"
  by (simp add: Image_open_def)

lemma Image_open_not_found:
  "Image_open w p = Inl err \<Longrightarrow> is_FileNotFoundError err \<longleftrightarrow> lookup_path w p = Missing"
  by (auto simp: Image_open_def split: entry.splits fdata.splits)

lemma json_load_doc: "files w p = Some (JsonFile d) \<Longrightarrow> json_load w p = Inr d"
  by (simp add: json_load_def lookup_path_def)

lemma ancestors_from_prefix:
  "pre @ xs \<in> set (ancestors_from pre (xs @ CHR ''/'' # ys))"
proof (induction xs arbitrary: pre)
  case Nil
  then show ?case by simp
next
  case (Cons x xs)
  from Cons [of "pre @ [x]"] show ?case by simp
qed

lemma ancestors_from_append:
  "set (ancestors_from pre xs) \<subseteq> set (ancestors_from pre (xs @ ys))"
  by (induction xs arbitrary: pre) auto

lemma rstrip_slash_split:
  "\<exists>s. p = rstrip_slash p @ s \<and> set s \<subseteq> {CHR ''/''}"
proof -
  have "rev p = takeWhile (\<lambda>c. c = CHR ''/'') (rev p) @ dropWhile (\<lambda>c. c = CHR ''/'') (rev p)"
    by simp
  then have "p = rstrip_slash p @ rev (takeWhile (\<lambda>c. c = CHR ''/'') (rev p))"
    unfolding rstrip_slash_def by (metis rev_append rev_rev_ident)
  moreover have "set (rev (takeWhile (\<lambda>c. c = CHR ''/'') (rev p))) \<subseteq> {CHR ''/''}"
    by (auto dest: set_takeWhileD)
  ultimately show ?thesis by blast
qed

lemma rstrip_slash_cases:
  "rstrip_slash p = p \<or> rstrip_slash p \<in> set (ancestors p)"
proof -
  from rstrip_slash_split [of p] obtain s where
    p: "p = rstrip_slash p @ s" and s: "set s \<subseteq> {CHR ''/''}"
    by blast
  show ?thesis
  proof (cases s)
    case Nil
    then show ?thesis using p by simp
  next
    case (Cons c cs)
    then have "c = CHR ''/''" using s by simp
    then have "p = rstrip_slash p @ CHR ''/'' # cs" using p Cons by simp
    then have "rstrip_slash p \<in> set (ancestors p)"
      using ancestors_from_prefix [of "[]" "rstrip_slash p" cs] by (simp add: ancestors_def)
    then show ?thesis ..
  qed
qed

lemma ancestors_rstrip_slash: "set (ancestors (rstrip_slash p)) \<subseteq> set (ancestors p)"
proof -
  from rstrip_slash_split [of p] obtain s where p: "p = rstrip_slash p @ s" by blast
  show ?thesis
    using ancestors_from_append [of "[]" "rstrip_slash p" s] p by (simp add: ancestors_def)
qed

lemma makedirs_can_make:
  assumes "can_make w d"
  shows "makedirs d w =
           (w\<lparr>dirs := dirs w \<union> set (filter (\<lambda>a. a \<noteq> [])
                                          (d # rstrip_slash d # ancestors d))\<rparr>, Inr ())"
proof -
  have d: "d \<noteq> []" and f: "files w d = None"
    and a: "\<And>x. x \<in> set (ancestors d) \<Longrightarrow> files w x = None"
    using assms by (simp_all add: can_make_def list_all_iff)
  have r: "files w (rstrip_slash d) = None"
    using rstrip_slash_cases [of d] f a by auto
  have n: "filter (\<lambda>a. files w a \<noteq> None) (ancestors (rstrip_slash d)) = []"
    using ancestors_rstrip_slash [of d] a by (auto simp: filter_empty_conv)
  show ?thesis
    unfolding makedirs_def n by (simp add: d r)
qed

lemma makedirs_Inr:
  "makedirs d w = (w1, Inr u) \<Longrightarrow> files w1 = files w \<and> dirs w \<subseteq> dirs w1 \<and> d \<in> dirs w1"
  by (auto simp: makedirs_def split: if_splits)

section \<open>Truncation\<close>

lemma py_int_of_int [simp]: "py_int (real_of_int n) = n"
  by (simp add: py_int_def)

lemma py_int_add_of_int [simp]:
  "py_int (real_of_int a + real_of_int b) = a + b"
  by (simp only: of_int_add [symmetric] py_int_of_int)

lemma py_int_mono: "a \<le> b \<Longrightarrow> py_int a \<le> py_int b"
proof -
  assume ab: "a \<le> b"
  have "\<lceil>a\<rceil> \<le> \<lfloor>b\<rfloor>" if "a < 0" "\<not> b < 0"
  proof -
    have "\<lceil>a\<rceil> \<le> 0" using that by (simp add: ceiling_le_iff)
    moreover have "0 \<le> \<lfloor>b\<rfloor>" using that by simp
    ultimately show ?thesis by linarith
  qed
  moreover have "\<lfloor>a\<rfloor> \<le> \<lceil>b\<rceil>"
    using floor_mono [OF ab] floor_le_ceiling [of b] by linarith
  ultimately show ?thesis
    using ab by (auto simp: py_int_def intro: floor_mono ceiling_mono)
qed

lemma py_int_half:
  "py_int (real_of_int m / 2) = (if m < 0 then - ((- m) div 2) else m div 2)"
proof (cases "m < 0")
  case True
  have "\<lceil>real_of_int m / 2\<rceil> = - \<lfloor>real_of_int (- m) / real_of_int 2\<rfloor>"
    by (simp add: ceiling_def)
  also have "\<dots> = - ((- m) div 2)"
    by (simp only: floor_divide_of_int_eq)
  finally show ?thesis using True by (simp add: py_int_def)
next
  case False
  have "\<lfloor>real_of_int m / real_of_int 2\<rfloor> = m div 2"
    by (simp only: floor_divide_of_int_eq)
  then show ?thesis using False by (simp add: py_int_def)
qed

section \<open>Squaring\<close>

lemma to_square_bbox_anchored:
  "to_square_bbox (x1, y1, x1 + s, y1 + s) = (x1, y1, x1 + s, y1 + s)"
  by (simp add: to_square_bbox_def Let_def add.commute)

text \<open>
  Claim C9. Squaring is idempotent on squares: a box whose width equals its height, with
  every coordinate below \<open>2^52\<close> in magnitude (the range in which the doubles of the code
  are exact on a square box), is returned unchanged by \<^verbatim>\<open>to_square_bbox\<close>.
\<close>

theorem to_square_bbox_square_fixed:
  assumes "exact_box (x1, y1, x2, y2)" and "x2 - x1 = y2 - y1"
  shows "to_square_bbox (x1, y1, x2, y2) = (x1, y1, x2, y2)"
proof -
  have "x2 = x1 + (x2 - x1)" and "y2 = y1 + (x2 - x1)"
    using assms(2) by simp_all
  then show ?thesis
    using to_square_bbox_anchored [of x1 y1 "x2 - x1"] by metis
qed

theorem to_square_bbox_square_fixed_witness:
  "exact_box (0, 25, 300, 325) \<and> (300::int) - 0 = 325 - 25
   \<and> to_square_bbox (0, 25, 300, 325) = (0, 25, 300, 325)"
proof -
  have e: "exact_box (0, 25, 300, 325)" by (simp add: exact_box_def)
  have s: "(300::int) - 0 = 325 - 25" by simp
  from to_square_bbox_square_fixed [OF e s] e show ?thesis by simp
qed

text \<open>
  Claim C2. The squared box should have side \<open>max width height\<close> in both axes. For the
  box \<open>(-5, -20, 40, 100)\<close>, of width 45 and height 120 (the padded box of landmarks that
  span \<open>(10, 20)\<close> to \<open>(25, 60)\<close>), the horizontal bounds are \<open>-42.5\<close> and \<open>77.5\<close>;
  truncation toward zero moves both inward, and the result is 119 wide and 120 high.
\<close>

theorem to_square_bbox_not_square:
  "to_square_bbox (- 5, - 20, 40, 100) = (- 42, - 20, 77, 100)
   \<and> box_width (to_square_bbox (- 5, - 20, 40, 100)) = 119
   \<and> box_height (to_square_bbox (- 5, - 20, 40, 100)) = 120
   \<and> max (box_width (- 5, - 20, 40, 100)) (box_height (- 5, - 20, 40, 100)) = 120"
  by (simp add: to_square_bbox_def py_int_def ceiling_def box_width_def box_height_def)

section \<open>How square the squared box is\<close>

lemma to_square_bbox_halves:
  "to_square_bbox (x1, y1, x2, y2) =
     (let s = max (x2 - x1) (y2 - y1)
      in (py_int (real_of_int (x1 + x2 - s) / 2), py_int (real_of_int (y1 + y2 - s) / 2),
          py_int (real_of_int (x1 + x2 + s) / 2), py_int (real_of_int (y1 + y2 + s) / 2)))"
proof -
  have "real_of_int a + real_of_int (b - a) / 2 - real_of_int s / 2 = real_of_int (a + b - s) / 2"
    and "real_of_int a + real_of_int (b - a) / 2 + real_of_int s / 2 = real_of_int (a + b + s) / 2"
    for a b s :: int
    by (simp_all add: field_simps)
  then show ?thesis
    by (simp only: to_square_bbox_def Let_def prod.case)
qed

lemma py_int_half_pair:
  fixes m s :: int
  assumes "0 \<le> s"
  shows "s - 1 \<le> py_int (real_of_int (m + s) / 2) - py_int (real_of_int (m - s) / 2)
       \<and> py_int (real_of_int (m + s) / 2) - py_int (real_of_int (m - s) / 2) \<le> s
       \<and> \<bar>py_int (real_of_int (m - s) / 2) + py_int (real_of_int (m + s) / 2) - m\<bar> \<le> 1"
  using assms unfolding py_int_half by (auto split: if_splits)

text \<open>
  What holds of every box with a side that is not negative, within the range in which
  every intermediate double is exact (coordinates below \<open>2^51\<close>): each side of the result
  is the larger side or one less, and the centre moves by half a pixel at most.
\<close>

lemma to_square_bbox_almost_square:
  assumes "x1 \<le> x2 \<or> y1 \<le> y2"
    and "\<bar>x1\<bar> < 2 ^ 51" "\<bar>y1\<bar> < 2 ^ 51" "\<bar>x2\<bar> < 2 ^ 51" "\<bar>y2\<bar> < 2 ^ 51"
  shows "max (x2 - x1) (y2 - y1) - 1 \<le> box_width (to_square_bbox (x1, y1, x2, y2))
       \<and> box_width (to_square_bbox (x1, y1, x2, y2)) \<le> max (x2 - x1) (y2 - y1)
       \<and> max (x2 - x1) (y2 - y1) - 1 \<le> box_height (to_square_bbox (x1, y1, x2, y2))
       \<and> box_height (to_square_bbox (x1, y1, x2, y2)) \<le> max (x2 - x1) (y2 - y1)
       \<and> \<bar>fst (centre2 (to_square_bbox (x1, y1, x2, y2))) - fst (centre2 (x1, y1, x2, y2))\<bar> \<le> 1
       \<and> \<bar>snd (centre2 (to_square_bbox (x1, y1, x2, y2))) - snd (centre2 (x1, y1, x2, y2))\<bar> \<le> 1"
proof -
  have s: "0 \<le> max (x2 - x1) (y2 - y1)" using assms(1) by auto
  show ?thesis
    using py_int_half_pair [OF s, of "x1 + x2"] py_int_half_pair [OF s, of "y1 + y2"]
    unfolding to_square_bbox_halves Let_def box_width_def box_height_def centre2_def prod.case
      fst_conv snd_conv
    by linarith
qed

section \<open>Manual selection\<close>

lemma press_release_boxes:
  "press_release px py rx ry (g, boxes, out) =
     ((g\<lparr>ref_points := [(px, py), (rx, ry)], cropping := False,
          image_for_drawing := image_for_drawing g @
            [((px, py), (px + max \<bar>rx - px\<bar> \<bar>ry - py\<bar>, py + max \<bar>rx - px\<bar> \<bar>ry - py\<bar>))]\<rparr>,
       boxes @ [(px, py, px + max \<bar>rx - px\<bar> \<bar>ry - py\<bar>, py + max \<bar>rx - px\<bar> \<bar>ry - py\<bar>)],
       out @ [ManualBoxAdded (px, py, px + max \<bar>rx - px\<bar> \<bar>ry - py\<bar>,
                              py + max \<bar>rx - px\<bar> \<bar>ry - py\<bar>)]),
      None)"
  by (simp add: press_release_def manual_crop_callback_def Let_def)

text \<open>
  Claim C4, as stated, fails: the box of a press at \<open>(0, 0)\<close> and a release at \<open>(10, 4)\<close>
  is \<open>(0, 0, 10, 10)\<close>, whose centre is \<open>(5, 5)\<close>, while the drawn rectangle
  \<open>(0, 0, 10, 4)\<close> has its centre at \<open>(5, 2)\<close>.
\<close>

theorem manual_box_not_centred:
  "fst (snd (fst (press_release 0 0 10 4
      (\<lparr>ref_points = [], cropping = False, image_for_drawing = []\<rparr>, [], []))))
     = [(0, 0, 10, 10)]
   \<and> centre2 (0, 0, 10, 10) \<noteq> centre2 (0, 0, 10, 4)"
  by (simp add: press_release_boxes centre2_def)

text \<open>
  Claim C4, amended. In manual mode the press point is the top-left corner of the box,
  with no padding and no call of \<^verbatim>\<open>to_square_bbox\<close>: for every press point \<open>(px, py)\<close>
  and release point \<open>(rx, ry)\<close> the callback raises nothing and appends the box
  \<open>(px, py, px + s, py + s)\<close>, where \<open>s\<close> is the larger of the drawn rectangle's width
  \<open>\<bar>rx - px\<bar>\<close> and height \<open>\<bar>ry - py\<bar>\<close>.
\<close>

theorem manual_box_anchored_at_press:
  "snd (press_release px py rx ry (g, boxes, out)) = None
   \<and> fst (snd (fst (press_release px py rx ry (g, boxes, out))))
       = boxes @ [(px, py, px + max \<bar>rx - px\<bar> \<bar>ry - py\<bar>, py + max \<bar>rx - px\<bar> \<bar>ry - py\<bar>)]"
  by (simp add: press_release_boxes)

theorem manual_box_anchored_at_press_witness:
  "fst (snd (fst (press_release 10 10 0 4
      (\<lparr>ref_points = [], cropping = False, image_for_drawing = []\<rparr>, [], []))))
     = [(10, 10, 20, 20)]"
  using manual_box_anchored_at_press
    [of 10 10 0 4 "\<lparr>ref_points = [], cropping = False, image_for_drawing = []\<rparr>" "[]" "[]"]
  by simp

section \<open>Landmark boxes and detected faces\<close>

lemma Min_le_Max_list: "xs \<noteq> [] \<Longrightarrow> Min (set xs) \<le> (Max (set xs) :: real)"
proof -
  assume "xs \<noteq> []"
  then have "hd xs \<in> set xs" by simp
  then have "Min (set xs) \<le> hd xs" and "hd xs \<le> Max (set xs)"
    by simp_all
  then show ?thesis by linarith
qed

lemma get_padded_ordered:
  assumes "get_padded_landmark_bbox kps 1.0 = Inr (x1, y1, x2, y2)"
  shows "x1 \<le> x2 \<and> y1 \<le> y2"
proof -
  have ne: "kps \<noteq> []" using assms by (auto simp: get_padded_landmark_bbox_def)
  have fx: "Min (set (map fst kps)) \<le> Max (set (map fst kps))"
    using ne by (intro Min_le_Max_list) simp
  have fy: "Min (set (map snd kps)) \<le> Max (set (map snd kps))"
    using ne by (intro Min_le_Max_list) simp
  show ?thesis
    using assms ne py_int_mono [OF fx] py_int_mono [OF fy]
    by (auto simp: get_padded_landmark_bbox_def Let_def)
qed

lemma to_square_bbox_ordered:
  assumes "x1 \<le> x2 \<or> y1 \<le> y2"
  shows "0 \<le> box_width (to_square_bbox (x1, y1, x2, y2))
       \<and> 0 \<le> box_height (to_square_bbox (x1, y1, x2, y2))"
proof -
  have s: "0 \<le> real_of_int (max (x2 - x1) (y2 - y1)) / 2"
    using assms by auto
  have "\<And>c::real. c - real_of_int (max (x2 - x1) (y2 - y1)) / 2
                 \<le> c + real_of_int (max (x2 - x1) (y2 - y1)) / 2"
    using s by linarith
  then show ?thesis
    by (simp add: to_square_bbox_def Let_def box_width_def box_height_def py_int_mono)
qed

lemma auto_boxes_ordered:
  "auto_boxes faces = Inr boxes \<Longrightarrow> b \<in> set boxes \<Longrightarrow> 0 \<le> box_width b \<and> 0 \<le> box_height b"
proof (induction faces arbitrary: boxes)
  case Nil
  then show ?case by simp
next
  case (Cons kps faces)
  from Cons.prems(1) obtain lb rest where
    lb: "get_padded_landmark_bbox kps 1.0 = Inr lb" and
    rest: "auto_boxes faces = Inr rest" and
    boxes: "boxes = to_square_bbox lb # rest"
    by (auto split: sum.splits)
  obtain x1 y1 x2 y2 where lb_eq: "lb = (x1, y1, x2, y2)"
    by (cases lb) auto
  have "x1 \<le> x2 \<or> y1 \<le> y2"
    using get_padded_ordered [of kps x1 y1 x2 y2] lb lb_eq by simp
  then have "0 \<le> box_width (to_square_bbox lb) \<and> 0 \<le> box_height (to_square_bbox lb)"
    unfolding lb_eq by (rule to_square_bbox_ordered)
  then show ?case
    using Cons.IH [OF rest] Cons.prems(2) boxes by auto
qed

lemma callback_anchored:
  assumes "list_all anchored boxes"
  shows "list_all anchored (fst (snd (fst (manual_crop_callback ev x y (g, boxes, out)))))"
  using assms
  by (auto simp: manual_crop_callback_def Let_def anchored_def box_width_def box_height_def
           split: list.splits)

lemma manual_loop_anchored:
  "manual_loop evs st = Some (g', boxes', out') \<Longrightarrow> list_all anchored (fst (snd st))
     \<Longrightarrow> list_all anchored boxes'"
proof (induction evs st rule: manual_loop.induct)
  case (1 st)
  then show ?case by simp
next
  case (2 event x y evs st)
  obtain g boxes out where st: "st = (g, boxes, out)" by (cases st) auto
  have "list_all anchored (fst (snd (fst (manual_crop_callback event x y st))))"
    using callback_anchored [of boxes event x y g out] "2.prems"(2) st by simp
  then show ?case using 2 by simp
next
  case (3 key evs g square_bounding_boxes out)
  then show ?case by (auto split: if_splits)
qed

section \<open>Records of extraction\<close>

lemma select_boxes_shape:
  assumes "select_boxes e mode g w = Some (g2, w2, Inr boxes)" and "b \<in> set boxes"
  shows "0 \<le> box_width b \<and> 0 \<le> box_height b
         \<and> (mode = ''manual'' \<longrightarrow> box_width b = box_height b)"
proof (cases "mode = ''auto''")
  case True
  then have "auto_boxes (detected e) = Inr boxes"
    using assms by (auto simp: select_boxes_def Let_def split: if_splits)
  then show ?thesis using auto_boxes_ordered assms(2) True by auto
next
  case False
  then obtain out where
    "manual_loop (ui_events e) (g\<lparr>image_for_drawing := []\<rparr>, [], []) = Some (g2, boxes, out)"
    using assms by (auto simp: select_boxes_def Let_def split: if_splits option.splits)
  then have "list_all anchored boxes"
    using manual_loop_anchored by fastforce
  then have "anchored b" using assms(2) by (simp add: list_all_iff)
  then show ?thesis by (simp add: anchored_def)
qed

lemma save_faces_records:
  "r \<in> set (snd (save_faces src ip dir i boxes st)) \<Longrightarrow>
     r \<in> set (snd st) \<or>
     (\<exists>k b. b \<in> set boxes \<and>
        r = face_metadata k (join dir (''face_'' @ str_nat k @ ''.png''))
              (image_size (Crop src b)) (fst b, fst (snd b)) b ip)"
proof (induction boxes arbitrary: i st)
  case Nil
  then show ?case by simp
next
  case (Cons c rest)
  from Cons.prems Cons.IH show ?case
    by (fastforce simp: Let_def)
qed

lemma finish_faces_records:
  "r \<in> set (snd (finish_faces src ip dir boxes w)) \<Longrightarrow>
     (\<exists>k b. b \<in> set boxes \<and>
        r = face_metadata k (join dir (''face_'' @ str_nat k @ ''.png''))
              (image_size (Crop src b)) (fst b, fst (snd b)) b ip)"
  using save_faces_records [of r src ip dir 0 boxes "(print w [CroppingFaces], [])"]
  by (auto simp: finish_faces_def Let_def split: if_splits)

lemma prepare_faces_records:
  assumes "prepare_faces e g w ip mode od = Some (g', w', Inr md)" and "r \<in> set md"
  shows "\<exists>im k b. files w ip = Some (ImageFile im)
           \<and> 0 \<le> box_width b \<and> 0 \<le> box_height b
           \<and> (mode = ''manual'' \<longrightarrow> box_width b = box_height b)
           \<and> r = face_metadata k
                 (join (join od (fst (splitext (basename ip)))) (''face_'' @ str_nat k @ ''.png''))
                 (image_size (Crop (Convert ''RGB'' im) b)) (fst b, fst (snd b)) b ip"
proof -
  let ?D = "join od (fst (splitext (basename ip)))"
  from assms obtain im where op: "Image_open w ip = Inr im"
    by (auto simp: prepare_faces_def split: sum.splits if_splits)
  then have im: "files w ip = Some (ImageFile im)"
    by (simp add: Image_open_Inr)
  from assms op obtain w1 g2 w2 boxes where
    sel: "select_boxes e mode g w1 = Some (g2, w2, Inr boxes)" and
    md: "md = snd (finish_faces (Convert ''RGB'' im) ip ?D boxes w2)"
    by (auto simp: prepare_faces_def Let_def split: option.splits sum.splits prod.splits)
  from finish_faces_records [of r "Convert ''RGB'' im" ip ?D boxes w2] assms(2) md
  obtain k b where b: "b \<in> set boxes" and
    r: "r = face_metadata k (join ?D (''face_'' @ str_nat k @ ''.png''))
              (image_size (Crop (Convert ''RGB'' im) b)) (fst b, fst (snd b)) b ip"
    by auto
  from select_boxes_shape [OF sel b] im r show ?thesis by blast
qed


lemma face_metadata_fields:
  "map_of (face_metadata k path sz xy box ip) ''face_id'' = Some (JInt (int k))"
  "map_of (face_metadata k path sz xy box ip) ''face_image_512px_path'' = Some (JStr path)"
  "map_of (face_metadata k path sz xy box ip) ''original_size'' = Some (JArr [JInt (fst sz), JInt (snd sz)])"
  "map_of (face_metadata k path sz xy box ip) ''paste_coordinates'' = Some (JArr [JInt (fst xy), JInt (snd xy)])"
  "map_of (face_metadata k path sz xy (x1, y1, x2, y2) ip) ''original_bbox_square''
     = Some (JArr [JInt x1, JInt y1, JInt x2, JInt y2])"
  "map_of (face_metadata k path sz xy box ip) ''source_image'' = Some (JStr ip)"
  "map fst (face_metadata k path sz xy box ip) =
     [''face_id'', ''face_image_512px_path'', ''original_size'', ''paste_coordinates'',
      ''original_bbox_square'', ''source_image'']"
  by (simp_all add: face_metadata_def)

text \<open>
  Claim C8, amended. For every record that extraction returns, \<open>original_size\<close> is the
  width and height \<open>(x2 - x1, y2 - y1)\<close> of the stored box \<open>original_bbox_square\<close>, both
  are at least 0 (a degenerate region is not rejected and gives a crop of size 0), and for
  a box drawn in manual mode the two are equal.
\<close>

theorem original_size_is_box_size:
  assumes "prepare_faces e g w ip mode od = Some (g', w', Inr md)" and "r \<in> set md"
  shows "\<exists>x1 y1 x2 y2.
           map_of r ''original_bbox_square'' = Some (JArr [JInt x1, JInt y1, JInt x2, JInt y2])
         \<and> map_of r ''original_size'' = Some (JArr [JInt (x2 - x1), JInt (y2 - y1)])
         \<and> 0 \<le> x2 - x1 \<and> 0 \<le> y2 - y1
         \<and> (mode = ''manual'' \<longrightarrow> x2 - x1 = y2 - y1)"
proof -
  from prepare_faces_records [OF assms] obtain im k b where
    w: "0 \<le> box_width b" and h: "0 \<le> box_height b" and
    m: "mode = ''manual'' \<longrightarrow> box_width b = box_height b" and
    r: "r = face_metadata k
             (join (join od (fst (splitext (basename ip)))) (''face_'' @ str_nat k @ ''.png''))
             (image_size (Crop (Convert ''RGB'' im) b)) (fst b, fst (snd b)) b ip"
    by blast
  obtain x1 y1 x2 y2 where b: "b = (x1, y1, x2, y2)" by (cases b) auto
  have sz: "image_size (Crop (Convert ''RGB'' im) b) = (x2 - x1, y2 - y1)"
    using w h by (simp add: b box_width_def box_height_def)
  show ?thesis
    using w h m unfolding r b sz
    by (intro exI [of _ x1] exI [of _ y1] exI [of _ x2] exI [of _ y2])
       (simp add: face_metadata_fields box_width_def box_height_def)
qed



text \<open>
  Claim C5, amended. When the source image exists and its output directory can be made
  (the name is not empty, and neither it nor a prefix it passes through is a regular
  file), and no region is detected (automatic mode) or selected (manual mode), extraction
  returns the empty list and leaves every file as it was: no face image and no metadata
  document is written. The output directory has been created all the same, with the
  directories its name passes through, before the regions were looked for.
\<close>

theorem no_regions_no_files_but_directory:
  assumes "files w ip = Some (ImageFile im)"
    and "join od (fst (splitext (basename ip))) \<noteq> []"
    and "files w (join od (fst (splitext (basename ip)))) = None"
    and "\<forall>a \<in> set (ancestors (join od (fst (splitext (basename ip))))). files w a = None"
    and "(mode = ''auto'' \<and> detected e = [])
       \<or> (mode = ''manual'' \<and>
           (\<exists>g2 out. manual_loop (ui_events e) (g\<lparr>image_for_drawing := []\<rparr>, [], [])
                        = Some (g2, [], out)))"
  shows "\<exists>g' w'. prepare_faces e g w ip mode od = Some (g', w', Inr [])
           \<and> files w' = files w
           \<and> join od (fst (splitext (basename ip))) \<in> dirs w'
           \<and> set (filter (\<lambda>a. a \<noteq> []) (ancestors (join od (fst (splitext (basename ip))))))
                \<subseteq> dirs w'
           \<and> dirs w \<subseteq> dirs w'"
proof -
  have cm: "can_make w (join od (fst (splitext (basename ip))))"
    using assms(2-4) by (simp add: can_make_def list_all_iff)
  show ?thesis
    using assms(1,2,5)
    by (auto simp: prepare_faces_def select_boxes_def finish_faces_def Image_open_image
          makedirs_can_make [OF cm] Let_def)
qed

section \<open>One record of recombination\<close>

lemma stored_path_Some:
  "stored_path r = Some p \<longleftrightarrow> map_of r ''face_image_512px_path'' = Some (JStr p)"
  by (auto simp: stored_path_def split: option.splits jval.splits)

lemma stored_pair_Some:
  "stored_pair r k = Some (a, b) \<longleftrightarrow> map_of r k = Some (JArr [JInt a, JInt b])"
  by (auto simp: stored_pair_def int_pair_def
           split: option.splits jval.splits list.splits sum.splits)

lemma recombine_face_found:
  assumes "map_of r ''face_id'' = Some fid"
    and "map_of r ''face_image_512px_path'' = Some (JStr p)"
    and "map_of r ''original_size'' = Some (JArr [JInt wd, JInt ht])"
    and "map_of r ''paste_coordinates'' = Some (JArr [JInt x, JInt y])"
    and "files ws (join dir (basename p)) = Some (ImageFile repl)"
    and "1 \<le> wd" and "1 \<le> ht"
  shows "recombine_face dir r (ws, panel, n) =
           (print (print ws [ResizingFace fid [JInt wd, JInt ht]]) [PastingFace fid [JInt x, JInt y]],
            Inr (Paste panel (Resize (Convert ''RGBA'' repl) (wd, ht)) (x, y)
                   (Resize (Convert ''RGBA'' repl) (wd, ht)), n + 1))"
  using assms
  by (simp add: recombine_face_def paste_face_def getitem_def path_of_def py_tuple_def
        int_pair_def Image_open_image Let_def)

lemma recombine_face_missing:
  assumes "map_of r ''face_id'' = Some fid"
    and "map_of r ''face_image_512px_path'' = Some (JStr p)"
    and "lookup_path ws (join dir (basename p)) = Missing"
  shows "recombine_face dir r (ws, panel, n) =
           (print ws [WarnReenactedNotFound fid (join dir (basename p))], Inr (panel, n))"
  using assms
  by (simp add: recombine_face_def getitem_def path_of_def Image_open_def Let_def)




lemma paste_face_outcome:
  "snd (paste_face fid r im (w, panel, n)) = snd (paste_face fid' r im (w', panel, n))"
  by (simp add: paste_face_def Let_def split: sum.splits)

lemma paste_face_same_fields:
  assumes "map_of r' ''original_size'' = map_of r ''original_size''"
    and "map_of r' ''paste_coordinates'' = map_of r ''paste_coordinates''"
  shows "paste_face fid r' im st = paste_face fid r im st"
proof -
  have g: "getitem r' ''original_size'' = getitem r ''original_size''"
    "getitem r' ''paste_coordinates'' = getitem r ''paste_coordinates''"
    using assms by (simp_all add: getitem_def)
  show ?thesis by (simp only: paste_face_def g)
qed

lemma paste_face_frame:
  "files (fst (paste_face fid r im (w, panel, n))) = files w
   \<and> dirs (fst (paste_face fid r im (w, panel, n))) = dirs w"
  by (simp add: paste_face_def Let_def split: sum.splits)

lemma recombine_face_frame:
  "files (fst (recombine_face dir r (w, panel, n))) = files w
   \<and> dirs (fst (recombine_face dir r (w, panel, n))) = dirs w"
  using paste_face_frame [of _ r _ w panel n]
  by (simp add: recombine_face_def Let_def split: sum.splits)

text \<open>The identifier of a record goes to the messages only.\<close>

lemma recombine_face_outcome:
  assumes "same_but_face_id r' r" and "files (w'::world) = files (w::world)" and "dirs w' = dirs w"
  shows "snd (recombine_face dir r' (w', panel, n)) = snd (recombine_face dir r (w, panel, n))"
proof -
  from assms(1) obtain fid fid' where
    f: "map_of r ''face_id'' = Some fid" "map_of r' ''face_id'' = Some fid'"
    and p: "map_of r' ''face_image_512px_path'' = map_of r ''face_image_512px_path''"
    and s: "map_of r' ''original_size'' = map_of r ''original_size''"
    and c: "map_of r' ''paste_coordinates'' = map_of r ''paste_coordinates''"
    by (auto simp: same_but_face_id_def)
  have o: "Image_open w' q = Image_open w q" for q
    by (simp add: Image_open_def lookup_path_cong [OF assms(2,3)])
  have pf: "snd (paste_face fid' r' im (w', panel, n)) = snd (paste_face fid r im (w, panel, n))" for im
    using paste_face_same_fields [OF s c] paste_face_outcome by metis
  show ?thesis
    using f p pf
    by (simp add: recombine_face_def getitem_def o Let_def split: option.splits sum.splits)
qed

lemma replacement_paste_cong:
  assumes "files (w'::world) = files (w::world)" and "dirs w' = dirs w"
  shows "replacement_paste w' dir = replacement_paste w dir"
    and "replaceable w' dir = replaceable w dir"
  unfolding replacement_paste_def replaceable_def lookup_path_cong [OF assms]
  by (rule refl)+

lemma pastes_for_cong:
  assumes "files (w'::world) = files (w::world)" and "dirs w' = dirs w"
  shows "pastes_for w' dir md = pastes_for w dir md"
    and "list_all (replaceable w' dir) md = list_all (replaceable w dir) md"
  by (simp_all add: pastes_for_def replacement_paste_cong [OF assms])

lemma replacement_paste_same_but_face_id:
  assumes "same_but_face_id r' r"
  shows "replacement_paste w dir r' = replacement_paste w dir r"
proof -
  have e: "stored_path r' = stored_path r"
    "stored_pair r' ''original_size'' = stored_pair r ''original_size''"
    "stored_pair r' ''paste_coordinates'' = stored_pair r ''paste_coordinates''"
    using assms by (simp_all add: same_but_face_id_def stored_path_def stored_pair_def)
  show ?thesis
    unfolding replacement_paste_def e by (rule refl)
qed

text \<open>
  One record that can be processed: the panel and the count are those the specification
  asks for, no file and no directory changes, and a replacement that is missing is
  reported under the looked-up name.
\<close>

lemma recombine_face_replaceable:
  assumes "replaceable w dir r"
  shows "\<exists>w'. recombine_face dir r (w, panel, n) =
            (w', Inr (case replacement_paste w dir r of
                        None \<Rightarrow> (panel, n)
                      | Some sp \<Rightarrow> (Paste panel (fst sp) (snd sp) (fst sp), n + 1)))
          \<and> files w' = files w \<and> dirs w' = dirs w
          \<and> set (stdout w) \<subseteq> set (stdout w')
          \<and> (\<forall>fid p. map_of r ''face_id'' = Some fid \<and> stored_path r = Some p
                \<and> lookup_path w (join dir (basename p)) = Missing
                \<longrightarrow> WarnReenactedNotFound fid (join dir (basename p)) \<in> set (stdout w'))"
proof -
  from assms obtain fid p where
    fid: "map_of r ''face_id'' = Some fid" and p: "stored_path r = Some p"
    by (auto simp: replaceable_def split: option.splits)
  have pm: "map_of r ''face_image_512px_path'' = Some (JStr p)"
    using p by (simp add: stored_path_Some)
  show ?thesis
  proof (cases "lookup_path w (join dir (basename p))")
    case Missing
    have "replacement_paste w dir r = None"
      by (simp add: replacement_paste_def p Missing)
    then show ?thesis
      using recombine_face_missing [OF fid pm Missing, of panel n] fid p
      by auto
  next
    case NotADirectory
    then show ?thesis using assms p by (simp add: replaceable_def)
  next
    case Directory
    then show ?thesis using assms p by (simp add: replaceable_def)
  next
    case (Regular f)
    then obtain repl sz xy where
      f: "f = ImageFile repl" and sz: "stored_pair r ''original_size'' = Some sz"
      and xy: "stored_pair r ''paste_coordinates'' = Some xy"
      and ge: "1 \<le> fst sz" "1 \<le> snd sz"
      using assms p
      by (auto simp: replaceable_def split: fdata.splits option.splits)
    obtain wd ht x y where e: "sz = (wd, ht)" "xy = (x, y)"
      by (cases sz, cases xy) auto
    have fl: "files w (join dir (basename p)) = Some (ImageFile repl)"
      using Regular f by (simp add: lookup_path_Regular)
    have rp: "replacement_paste w dir r = Some (Resize (Convert ''RGBA'' repl) (wd, ht), (x, y))"
      using sz xy by (simp add: replacement_paste_def p Regular f e)
    from recombine_face_found [OF fid pm _ _ fl, of wd ht x y panel n] sz xy ge
    show ?thesis
      using Regular p by (auto simp: rp e stored_pair_Some)
  qed
qed

section \<open>The loop over the records\<close>

lemma recombine_loop_frame:
  "files (fst (recombine_loop dir md (w, st))) = files w
   \<and> dirs (fst (recombine_loop dir md (w, st))) = dirs w"
proof (induction md arbitrary: w st)
  case Nil
  then show ?case by simp
next
  case (Cons r md)
  obtain panel n where st: "st = (panel, n)" by (cases st) auto
  obtain w1 res where step: "recombine_face dir r (w, panel, n) = (w1, res)"
    by (cases "recombine_face dir r (w, panel, n)") auto
  have fr: "files w1 = files w \<and> dirs w1 = dirs w"
    using recombine_face_frame [of dir r w panel n] step by simp
  show ?case
  proof (cases res)
    case (Inl err)
    then show ?thesis using step fr st by simp
  next
    case (Inr st')
    then show ?thesis using step fr st Cons.IH [of w1 st'] by simp
  qed
qed

lemma recombine_loop_outcome:
  assumes "list_all2 same_but_face_id md' md"
    and "files (w'::world) = files (w::world)" and "dirs w' = dirs w"
  shows "snd (recombine_loop dir md' (w', st)) = snd (recombine_loop dir md (w, st))"
  using assms
proof (induction md' md arbitrary: w' w st rule: list_all2_induct)
  case Nil
  then show ?case by simp
next
  case (Cons r' md' r md)
  obtain panel n where st: "st = (panel, n)" by (cases st) auto
  obtain w1 res where step: "recombine_face dir r (w, panel, n) = (w1, res)"
    by (cases "recombine_face dir r (w, panel, n)") auto
  obtain w1' res' where step': "recombine_face dir r' (w', panel, n) = (w1', res')"
    by (cases "recombine_face dir r' (w', panel, n)") auto
  have res: "res' = res"
    using recombine_face_outcome [OF Cons.hyps(1) Cons.prems, of dir panel n] step step' by simp
  have fr: "files w1' = files w1" "dirs w1' = dirs w1"
    using recombine_face_frame [of dir r w panel n] recombine_face_frame [of dir r' w' panel n]
      step step' Cons.prems by simp_all
  show ?case
  proof (cases res)
    case (Inl err)
    then show ?thesis using step step' res st by simp
  next
    case (Inr st')
    then show ?thesis using step step' res st Cons.IH [OF fr, of st'] by simp
  qed
qed

lemma recombine_loop_replaceable:
  assumes "list_all (replaceable w dir) md"
  shows "\<exists>w'. recombine_loop dir md (w, panel, n) =
            (w', Inr (apply_pastes panel (pastes_for w dir md),
                      n + length (pastes_for w dir md)))
          \<and> files w' = files w \<and> dirs w' = dirs w
          \<and> set (stdout w) \<subseteq> set (stdout w')
          \<and> (\<forall>r \<in> set md. \<forall>fid p. map_of r ''face_id'' = Some fid \<and> stored_path r = Some p
                \<and> lookup_path w (join dir (basename p)) = Missing
                \<longrightarrow> WarnReenactedNotFound fid (join dir (basename p)) \<in> set (stdout w'))"
  using assms
proof (induction md arbitrary: w panel n)
  case Nil
  then show ?case by (simp add: pastes_for_def)
next
  case (Cons r md)
  from Cons.prems have r: "replaceable w dir r" and rest: "list_all (replaceable w dir) md"
    by simp_all
  let ?st = "case replacement_paste w dir r of
               None \<Rightarrow> (panel, n)
             | Some sp \<Rightarrow> (Paste panel (fst sp) (snd sp) (fst sp), n + 1)"
  from recombine_face_replaceable [OF r, of panel n] obtain w1 where
    step: "recombine_face dir r (w, panel, n) = (w1, Inr ?st)"
    and fr: "files w1 = files w" "dirs w1 = dirs w"
    and out: "set (stdout w) \<subseteq> set (stdout w1)"
    and warn: "\<forall>fid p. map_of r ''face_id'' = Some fid \<and> stored_path r = Some p
                \<and> lookup_path w (join dir (basename p)) = Missing
                \<longrightarrow> WarnReenactedNotFound fid (join dir (basename p)) \<in> set (stdout w1)"
    by blast
  have rest1: "list_all (replaceable w1 dir) md"
    using rest by (simp add: pastes_for_cong [OF fr])
  from Cons.IH [OF rest1, of "fst ?st" "snd ?st"] obtain w2 where
    loop: "recombine_loop dir md (w1, ?st) =
             (w2, Inr (apply_pastes (fst ?st) (pastes_for w dir md),
                       snd ?st + length (pastes_for w dir md)))"
    and fr2: "files w2 = files w" "dirs w2 = dirs w"
    and out2: "set (stdout w1) \<subseteq> set (stdout w2)"
    and warn2: "\<forall>r \<in> set md. \<forall>fid p. map_of r ''face_id'' = Some fid \<and> stored_path r = Some p
                \<and> lookup_path w (join dir (basename p)) = Missing
                \<longrightarrow> WarnReenactedNotFound fid (join dir (basename p)) \<in> set (stdout w2)"
    by (auto simp: pastes_for_cong [OF fr] lookup_path_cong [OF fr] fr)
  have res: "(apply_pastes (fst ?st) (pastes_for w dir md), snd ?st + length (pastes_for w dir md))
           = (apply_pastes panel (pastes_for w dir (r # md)), n + length (pastes_for w dir (r # md)))"
    by (simp add: pastes_for_def List.map_filter_simps split: option.splits)
  have "recombine_loop dir (r # md) (w, panel, n) =
          (w2, Inr (apply_pastes panel (pastes_for w dir (r # md)),
                    n + length (pastes_for w dir (r # md))))"
    using step loop res by simp
  moreover have "set (stdout w) \<subseteq> set (stdout w2)" using out out2 by blast
  moreover have "\<forall>r' \<in> set (r # md). \<forall>fid p. map_of r' ''face_id'' = Some fid \<and> stored_path r' = Some p
                \<and> lookup_path w (join dir (basename p)) = Missing
                \<longrightarrow> WarnReenactedNotFound fid (join dir (basename p)) \<in> set (stdout w2)"
    using warn warn2 out2 by auto
  ultimately show ?case using fr2 by blast
qed

section \<open>The whole recombination\<close>

lemma can_make_cong: "files (w'::world) = files (w::world) \<Longrightarrow> can_make w' = can_make w"
  by (rule ext) (simp add: can_make_def)

lemma replacement_paste_found:
  assumes "stored_path r = Some p"
    and "files w (join dir (basename p)) = Some (ImageFile repl)"
    and "stored_pair r ''original_size'' = Some sz"
    and "stored_pair r ''paste_coordinates'' = Some xy"
  shows "replacement_paste w dir r = Some (Resize (Convert ''RGBA'' repl) sz, xy)"
proof -
  have "lookup_path w (join dir (basename p)) = Regular (ImageFile repl)"
    using assms(2) by (simp add: lookup_path_Regular)
  then show ?thesis
    using assms(1,3,4) by (simp add: replacement_paste_def)
qed

lemma pastes_for_member:
  "r \<in> set md \<Longrightarrow> replacement_paste w dir r = Some sp \<Longrightarrow> sp \<in> set (pastes_for w dir md)"
  by (induction md) (auto simp: pastes_for_def List.map_filter_simps split: option.splits)

lemma replaceable_found:
  assumes "replaceable w dir r" and "stored_path r = Some p"
    and "files w (join dir (basename p)) = Some (ImageFile repl)"
  shows "\<exists>sz xy. stored_pair r ''original_size'' = Some sz
           \<and> stored_pair r ''paste_coordinates'' = Some xy \<and> 1 \<le> fst sz \<and> 1 \<le> snd sz"
proof -
  have "lookup_path w (join dir (basename p)) = Regular (ImageFile repl)"
    using assms(3) by (simp add: lookup_path_Regular)
  then show ?thesis
    using assms(1,2) by (auto simp: replaceable_def split: option.splits)
qed

text \<open>
  With the panel and the metadata document in place, every record processable and a name
  under which the result can be saved, recombination pastes what the specification asks
  for, in the order of the records, and saves the panel if something was pasted.
\<close>

lemma recombine_panel_replaceable:
  assumes "files w pp = Some (ImageFile im)" and "files w mp = Some (JsonFile md)"
    and "list_all (replaceable w dir) md" and "savable w out"
  shows "\<exists>w'. recombine_panel w pp mp dir out = (w', Inr ())
      \<and> files w' = (if pastes_for w dir md = [] then files w
                    else (files w)(out \<mapsto>
                           ImageFile (apply_pastes (Convert ''RGBA'' im) (pastes_for w dir md))))
      \<and> dirs w \<subseteq> dirs w'
      \<and> (\<forall>r \<in> set md. \<forall>fid p. map_of r ''face_id'' = Some fid \<and> stored_path r = Some p
            \<and> lookup_path w (join dir (basename p)) = Missing
            \<longrightarrow> WarnReenactedNotFound fid (join dir (basename p)) \<in> set (stdout w'))"
proof -
  let ?w0 = "print w [StartingStage3]"
  let ?w1 = "print ?w0 [LoadedPanel pp]"
  let ?w2 = "print ?w1 [LoadedMetadata (length md) mp]"
  let ?ps = "pastes_for w dir md"
  have 1: "Image_open ?w0 pp = Inr im"
    using assms(1) by (simp add: Image_open_image)
  have 2: "json_load ?w1 mp = Inr md"
    using assms(2) by (simp add: json_load_doc)
  have fr2: "files ?w2 = files w" "dirs ?w2 = dirs w" by simp_all
  have "list_all (replaceable ?w2 dir) md"
    using assms(3) by (simp add: pastes_for_cong [OF fr2])
  from recombine_loop_replaceable [OF this, of "Convert ''RGBA'' im" 0]
  obtain w3 where
    3: "recombine_loop dir md (?w2, Convert ''RGBA'' im, 0) =
          (w3, Inr (apply_pastes (Convert ''RGBA'' im) ?ps, length ?ps))"
    and fr3: "files w3 = files w" "dirs w3 = dirs w"
    and warn: "\<forall>r \<in> set md. \<forall>fid p. map_of r ''face_id'' = Some fid \<and> stored_path r = Some p
            \<and> lookup_path w (join dir (basename p)) = Missing
            \<longrightarrow> WarnReenactedNotFound fid (join dir (basename p)) \<in> set (stdout w3)"
    by (auto simp: pastes_for_cong [OF fr2] lookup_path_cong [OF fr2])
  show ?thesis
  proof (cases "?ps = []")
    case True
    have "recombine_panel w pp mp dir out
            = (print w3 [RecombinationFinished, NoReenactedFaces], Inr ())"
      by (simp add: recombine_panel_def Let_def 1 2 3 True del: recombine_loop.simps)
    then show ?thesis
      using True fr3 warn by auto
  next
    case False
    have cm: "can_make w3 (dirname out)"
      using assms(4) by (simp add: savable_def can_make_cong [OF fr3(1)])
    have "recombine_panel w pp mp dir out
            = (print (Image_save (apply_pastes (Convert ''RGBA'' im) ?ps) out
                        (w3\<lparr>dirs := dirs w3 \<union> set (filter (\<lambda>a. a \<noteq> [])
                                           (dirname out # rstrip_slash (dirname out)
                                              # ancestors (dirname out)))\<rparr>))
                 [RecombinationComplete, RecombinedFaces (length ?ps),
                  FinalPanelSaved out, BeforeArtifactRemoval],
               Inr ())"
      using False
      by (simp add: recombine_panel_def Let_def 1 2 3 makedirs_can_make [OF cm]
            del: recombine_loop.simps)
    then show ?thesis
      using False fr3 warn by (auto simp: Image_save_def)
  qed
qed

text \<open>
  The two outcomes of the end of recombination, for any records on which the loop
  returns: under a name that can be saved the output is written if and only if the count
  is positive; under a name with no directory part a positive count ends in the
  \<^verbatim>\<open>FileNotFoundError\<close> of \<^verbatim>\<open>os.makedirs\<close> and nothing is written.
\<close>

lemma recombine_panel_written_iff:
  assumes "files w panel_path = Some (ImageFile im)"
    and "files w metadata_path = Some (JsonFile md)"
    and "recombine_loop dir md
           (print (print (print w [StartingStage3]) [LoadedPanel panel_path])
              [LoadedMetadata (length md) metadata_path], Convert ''RGBA'' im, 0)
         = (w2, Inr (panel, c))"
    and "savable w output_path"
  shows "snd (recombine_panel w panel_path metadata_path dir output_path) = Inr ()
       \<and> files (fst (recombine_panel w panel_path metadata_path dir output_path))
           = (if 0 < c then (files w)(output_path \<mapsto> ImageFile panel) else files w)"
proof -
  have fr: "files w2 = files w"
    using recombine_loop_frame [of dir md
        "print (print (print w [StartingStage3]) [LoadedPanel panel_path])
           [LoadedMetadata (length md) metadata_path]" "(Convert ''RGBA'' im, 0)"] assms(3)
    by simp
  have cm: "can_make w2 (dirname output_path)"
    using assms(4) by (simp add: savable_def can_make_cong [OF fr])
  show ?thesis
    using assms(1-3) fr
    by (simp add: recombine_panel_def Image_open_image json_load_doc makedirs_can_make [OF cm]
          Image_save_def Let_def del: recombine_loop.simps)
qed

lemma recombine_panel_bare_name:
  assumes "files w panel_path = Some (ImageFile im)"
    and "files w metadata_path = Some (JsonFile md)"
    and "recombine_loop dir md
           (print (print (print w [StartingStage3]) [LoadedPanel panel_path])
              [LoadedMetadata (length md) metadata_path], Convert ''RGBA'' im, 0)
         = (w2, Inr (panel, c))"
    and "0 < c" and "dirname output_path = []"
  shows "recombine_panel w panel_path metadata_path dir output_path
           = (w2, Inl (FileNotFoundError []))
       \<and> files w2 = files w"
proof -
  have fr: "files w2 = files w"
    using recombine_loop_frame [of dir md
        "print (print (print w [StartingStage3]) [LoadedPanel panel_path])
           [LoadedMetadata (length md) metadata_path]" "(Convert ''RGBA'' im, 0)"] assms(3)
    by simp
  show ?thesis
    using assms fr
    by (simp add: recombine_panel_def Image_open_image json_load_doc makedirs_def
          Let_def del: recombine_loop.simps)
qed

section \<open>Field names, geometry and lookup\<close>



text \<open>
  Claim C10. Recombination finds the replacement of a record at the replacement directory
  joined with the base name of the stored path \<open>face_image_512px_path\<close>. On a panel, a
  metadata document whose records can each be processed, and an output name that can be
  saved, a run returns normally; the files afterwards are those before, with the panel
  saved under the output name if something was pasted; what is pasted is decided by what
  lies under the looked-up names: with nothing under that name the record is skipped and
  the warning names the looked-up path, with an image under that name this image is
  pasted. Changing the \<open>face_id\<close> of the records changes neither the pastes nor what
  the loop returns: the identifier goes to the messages only.
\<close>

theorem lookup_by_stored_basename:
  assumes "files ws panel_path = Some (ImageFile im)"
    and "files ws metadata_path = Some (JsonFile md)"
    and "list_all (replaceable ws dir) md"
    and "savable ws output_path"
  shows "(\<exists>ws'. recombine_panel ws panel_path metadata_path dir output_path = (ws', Inr ())
           \<and> files ws' = (if pastes_for ws dir md = [] then files ws
                           else (files ws)(output_path \<mapsto>
                                  ImageFile (apply_pastes (Convert ''RGBA'' im)
                                               (pastes_for ws dir md))))
           \<and> (\<forall>r \<in> set md. \<forall>fid p. map_of r ''face_id'' = Some fid \<and> stored_path r = Some p
                 \<and> lookup_path ws (join dir (basename p)) = Missing
                 \<longrightarrow> WarnReenactedNotFound fid (join dir (basename p)) \<in> set (stdout ws')))
       \<and> (\<forall>r \<in> set md. \<forall>p repl. stored_path r = Some p
             \<and> files ws (join dir (basename p)) = Some (ImageFile repl)
             \<longrightarrow> (\<exists>sz xy. (Resize (Convert ''RGBA'' repl) sz, xy) \<in> set (pastes_for ws dir md)))
       \<and> (\<forall>md' st. list_all2 same_but_face_id md' md
             \<longrightarrow> pastes_for ws dir md' = pastes_for ws dir md
               \<and> snd (recombine_loop dir md' (ws, st)) = snd (recombine_loop dir md (ws, st)))"
proof (intro conjI ballI allI impI)
  from recombine_panel_replaceable [OF assms]
  show "\<exists>ws'. recombine_panel ws panel_path metadata_path dir output_path = (ws', Inr ())
           \<and> files ws' = (if pastes_for ws dir md = [] then files ws
                           else (files ws)(output_path \<mapsto>
                                  ImageFile (apply_pastes (Convert ''RGBA'' im)
                                               (pastes_for ws dir md))))
           \<and> (\<forall>r \<in> set md. \<forall>fid p. map_of r ''face_id'' = Some fid \<and> stored_path r = Some p
                 \<and> lookup_path ws (join dir (basename p)) = Missing
                 \<longrightarrow> WarnReenactedNotFound fid (join dir (basename p)) \<in> set (stdout ws'))"
    by blast
next
  fix r p repl
  assume r: "r \<in> set md"
    and f: "stored_path r = Some p \<and> files ws (join dir (basename p)) = Some (ImageFile repl)"
  have "replaceable ws dir r" using assms(3) r by (simp add: list_all_iff)
  from replaceable_found [OF this] f obtain sz xy where
    s: "stored_pair r ''original_size'' = Some sz"
    and c: "stored_pair r ''paste_coordinates'' = Some xy"
    by blast
  have "replacement_paste ws dir r = Some (Resize (Convert ''RGBA'' repl) sz, xy)"
    using replacement_paste_found [of r p ws dir repl sz xy] f s c by simp
  from pastes_for_member [OF r this]
  show "\<exists>sz xy. (Resize (Convert ''RGBA'' repl) sz, xy) \<in> set (pastes_for ws dir md)"
    by blast
next
  fix md' st assume l: "list_all2 same_but_face_id md' md"
  then show "pastes_for ws dir md' = pastes_for ws dir md"
    by (induction md' md rule: list_all2_induct)
       (simp_all add: pastes_for_def List.map_filter_simps replacement_paste_same_but_face_id
          split: option.splits)
next
  fix md' st assume l: "list_all2 same_but_face_id md' md"
  show "snd (recombine_loop dir md' (ws, st)) = snd (recombine_loop dir md (ws, st))"
    by (rule recombine_loop_outcome [OF l refl refl])
qed

section \<open>Concrete runs of extraction\<close>

lemmas run_defs = prepare_faces_def select_boxes_def finish_faces_def Image_open_def
  lookup_path_def makedirs_def rstrip_slash_def ancestors_def
  basename_def splitext_def join_def print_def Image_save_def json_dump_def Let_def
  str_nat.simps idle_def page_world_def manual_crop_callback_def
  drawn_env_def clicked_env_def detected_env_def

lemma page_dir: "join ''out'' (fst (splitext (basename ''panels/page1.png''))) = ''out/page1''"
  by (simp add: basename_def splitext_def join_def Let_def)

lemma page_ancestors: "ancestors ''out/page1'' = [''out'']"
  by (simp add: ancestors_def)

lemma drawn_run:
  "\<exists>g' w'. prepare_faces drawn_env idle page_world ''panels/page1.png'' ''manual'' ''out''
             = Some (g', w', Inr [drawn_record])"
  by (simp add: run_defs drawn_record_def)

lemma clicked_run:
  "projr (snd (snd (the (prepare_faces clicked_env idle page_world
      ''panels/page1.png'' ''manual'' ''out''))))
   = [face_metadata 0 ''out/page1/face_0.png'' (0, 0) (5, 5) (5, 5, 5, 5) ''panels/page1.png'']"
  by (simp add: run_defs)

lemma narrow_face_run:
  "projr (snd (snd (the (prepare_faces (detected_env [[(10, 20), (25, 60)]]) idle page_world
      ''panels/page1.png'' ''auto'' ''out''))))
   = [face_metadata 0 ''out/page1/face_0.png'' (119, 120) (- 42, - 20) (- 42, - 20, 77, 100)
        ''panels/page1.png'']"
  by (simp add: run_defs get_padded_landmark_bbox_def to_square_bbox_def py_int_def ceiling_def)


lemma empty_run:
  "snd (snd (the (prepare_faces (detected_env []) idle page_world
            ''panels/page1.png'' ''auto'' ''out''))) = Inr []"
  "dirs (fst (snd (the (prepare_faces (detected_env []) idle page_world
            ''panels/page1.png'' ''auto'' ''out'')))) = {''panels'', ''out'', ''out/page1''}"
  "files (fst (snd (the (prepare_faces (detected_env []) idle page_world
            ''panels/page1.png'' ''auto'' ''out'')))) = files page_world"
  by (auto simp: run_defs)




text \<open>
  Claim C5, as stated, fails: on a file system whose only directory is \<open>panels\<close>,
  extraction with no detected face returns the empty list and leaves the directories
  \<open>out\<close> and \<open>out/page1\<close> behind.
\<close>

theorem no_regions_creates_directory:
  "dirs page_world = {''panels''}
   \<and> snd (snd (the (prepare_faces (detected_env []) idle page_world
            ''panels/page1.png'' ''auto'' ''out''))) = Inr []
   \<and> dirs (fst (snd (the (prepare_faces (detected_env []) idle page_world
            ''panels/page1.png'' ''auto'' ''out'')))) = {''panels'', ''out'', ''out/page1''}"
  by (simp add: empty_run) (simp add: page_world_def)

text \<open>Extraction of a panel in which the detector finds no face.\<close>

theorem no_regions_no_files_but_directory_witness:
  "files page_world ''panels/page1.png'' = Some (ImageFile (Bitmap 0 (800, 600)))
   \<and> ''out/page1'' \<noteq> []
   \<and> files page_world ''out/page1'' = None
   \<and> ancestors ''out/page1'' = [''out'']
   \<and> files page_world ''out'' = None
   \<and> detected (detected_env []) = []
   \<and> (\<exists>g' w'. prepare_faces (detected_env []) idle page_world ''panels/page1.png'' ''auto'' ''out''
                  = Some (g', w', Inr [])
          \<and> files w' = files page_world
          \<and> ''out/page1'' \<in> dirs w' \<and> ''out'' \<in> dirs w')"
proof -
  have f: "files page_world ''panels/page1.png'' = Some (ImageFile (Bitmap 0 (800, 600)))"
    by (simp add: page_world_def)
  have d: "join ''out'' (fst (splitext (basename ''panels/page1.png''))) \<noteq> []"
    and n: "files page_world (join ''out'' (fst (splitext (basename ''panels/page1.png'')))) = None"
    and a: "\<forall>a \<in> set (ancestors (join ''out'' (fst (splitext (basename ''panels/page1.png''))))).
              files page_world a = None"
    by (simp_all add: page_dir page_ancestors page_world_def)
  have e: "detected (detected_env []) = []"
    by (simp add: detected_env_def)
  have o: "files page_world ''out'' = None" by (simp add: page_world_def)
  from no_regions_no_files_but_directory [OF f d n a, of "''auto''" "detected_env []" idle] e f n o
  show ?thesis by (auto simp: page_dir page_ancestors)
qed

text \<open>
  Claim C8, as stated, fails in both parts: a click (press and release at the same point)
  in manual mode gives a record of size \<open>(0, 0)\<close>, and landmarks that span \<open>(10,20)\<close> to
  \<open>(25,60)\<close> give a record of size \<open>(119, 120)\<close>.
\<close>

theorem original_size_zero_or_not_square:
  "map (\<lambda>r. map_of r ''original_size'')
     (projr (snd (snd (the (prepare_faces clicked_env idle page_world
        ''panels/page1.png'' ''manual'' ''out'')))))
     = [Some (JArr [JInt 0, JInt 0])]
   \<and> map (\<lambda>r. map_of r ''original_size'')
     (projr (snd (snd (the (prepare_faces (detected_env [[(10, 20), (25, 60)]]) idle page_world
        ''panels/page1.png'' ''auto'' ''out'')))))
     = [Some (JArr [JInt 119, JInt 120])]"
  by (simp add: clicked_run narrow_face_run face_metadata_fields)

text \<open>A box drawn from \<open>(5, 6)\<close> to \<open>(15, 12)\<close>: the record has size \<open>(10, 10)\<close>.\<close>

theorem original_size_is_box_size_witness:
  "(\<exists>g' w'. prepare_faces drawn_env idle page_world ''panels/page1.png'' ''manual'' ''out''
              = Some (g', w', Inr [drawn_record]))
   \<and> map_of drawn_record ''original_bbox_square''
        = Some (JArr [JInt 5, JInt 6, JInt 15, JInt 16])
   \<and> map_of drawn_record ''original_size'' = Some (JArr [JInt (15 - 5), JInt (16 - 6)])"
proof -
  from drawn_run obtain g' w' where
    run: "prepare_faces drawn_env idle page_world ''panels/page1.png'' ''manual'' ''out''
            = Some (g', w', Inr [drawn_record])"
    by blast
  have "drawn_record \<in> set [drawn_record]" by simp
  from original_size_is_box_size [OF run this] run show ?thesis
    by (auto simp: drawn_record_def face_metadata_fields)
qed



section \<open>Concrete runs of recombination\<close>













lemma hero_path: "join ''reenacted'' (basename ''prepared/page1/hero.png'') = ''reenacted/hero.png''"
  by (simp add: join_def basename_def)

lemma hero_fields:
  "map_of hero_record ''face_id'' = Some (JInt 0)"
  "map_of hero_record ''face_image_512px_path'' = Some (JStr ''prepared/page1/hero.png'')"
  "map_of hero_record ''original_size'' = Some (JArr [JInt 10, JInt 10])"
  "map_of hero_record ''paste_coordinates'' = Some (JArr [JInt 5, JInt 6])"
  by (simp_all add: hero_record_def)

lemma stage3_files:
  "files stage3_world ''page1.png'' = Some (ImageFile (Bitmap 0 (800, 600)))"
  "files stage3_world ''prepared/page1/metadata.json'' = Some (JsonFile [hero_record])"
  "files stage3_world ''reenacted/hero.png'' = Some (ImageFile (Bitmap 7 (512, 512)))"
  "files stage3_world ''recombined.png'' = None"
  "files stage3_world ''output'' = None"
  by (simp_all add: stage3_world_def)

lemma hero_replaceable: "list_all (replaceable stage3_world ''reenacted'') [hero_record]"
  by (simp add: replaceable_def stored_path_def stored_pair_def int_pair_def hero_fields
        hero_path lookup_path_def stage3_files)
     (simp add: basename_def)

lemma hero_savable: "savable stage3_world ''output/recombined.png''"
  by (simp add: savable_def can_make_def dirname_def splitext_def basename_def ancestors_def
        stage3_files Let_def)
     (simp add: stage3_world_def)

lemma hero_pastes:
  "pastes_for stage3_world ''reenacted'' [hero_record]
     = [(Resize (Convert ''RGBA'' (Bitmap 7 (512, 512))) (10, 10), (5, 6))]"
  by (simp add: pastes_for_def List.map_filter_simps replacement_paste_def stored_path_def
        stored_pair_def int_pair_def hero_fields hero_path lookup_path_def stage3_files)

text \<open>
  A record whose stored base name \<open>hero.png\<close> differs from \<open>face_0.png\<close>: the image under
  \<open>reenacted/hero.png\<close> is pasted and saved, not the one under \<open>reenacted/face_0.png\<close>.
\<close>

theorem lookup_by_stored_basename_witness:
  "files stage3_world ''page1.png'' = Some (ImageFile (Bitmap 0 (800, 600)))
   \<and> files stage3_world ''prepared/page1/metadata.json'' = Some (JsonFile [hero_record])
   \<and> list_all (replaceable stage3_world ''reenacted'') [hero_record]
   \<and> savable stage3_world ''output/recombined.png''
   \<and> map_of hero_record ''face_id'' = Some (JInt 0)
   \<and> stored_path hero_record = Some ''prepared/page1/hero.png''
   \<and> basename ''prepared/page1/hero.png'' \<noteq> ''face_'' @ str_nat 0 @ ''.png''
   \<and> files stage3_world ''reenacted/hero.png'' = Some (ImageFile (Bitmap 7 (512, 512)))
   \<and> files stage3_world ''reenacted/face_0.png'' = Some (ImageFile (Bitmap 8 (512, 512)))
   \<and> (\<exists>ws'. recombine_panel stage3_world ''page1.png'' ''prepared/page1/metadata.json''
               ''reenacted'' ''output/recombined.png'' = (ws', Inr ())
         \<and> files ws' = (files stage3_world)(''output/recombined.png'' \<mapsto>
               ImageFile (Paste (Convert ''RGBA'' (Bitmap 0 (800, 600)))
                 (Resize (Convert ''RGBA'' (Bitmap 7 (512, 512))) (10, 10)) (5, 6)
                 (Resize (Convert ''RGBA'' (Bitmap 7 (512, 512))) (10, 10)))))"
proof -
  have n: "basename ''prepared/page1/hero.png'' \<noteq> ''face_'' @ str_nat 0 @ ''.png''"
    by (simp add: basename_def str_nat.simps)
  have s: "stored_path hero_record = Some ''prepared/page1/hero.png''"
    by (simp add: stored_path_Some hero_fields)
  have f: "files stage3_world ''reenacted/face_0.png'' = Some (ImageFile (Bitmap 8 (512, 512)))"
    by (simp add: stage3_world_def)
  from lookup_by_stored_basename
         [OF stage3_files(1) stage3_files(2) hero_replaceable hero_savable]
  obtain ws' where
    "recombine_panel stage3_world ''page1.png'' ''prepared/page1/metadata.json''
       ''reenacted'' ''output/recombined.png'' = (ws', Inr ())"
    "files ws' = (files stage3_world)(''output/recombined.png'' \<mapsto>
               ImageFile (Paste (Convert ''RGBA'' (Bitmap 0 (800, 600)))
                 (Resize (Convert ''RGBA'' (Bitmap 7 (512, 512))) (10, 10)) (5, 6)
                 (Resize (Convert ''RGBA'' (Bitmap 7 (512, 512))) (10, 10))))"
    by (auto simp: hero_pastes)
  then show ?thesis
    using stage3_files hero_replaceable hero_savable hero_fields s n f by blast
qed

section \<open>The output file\<close>

lemma dirname_bare: "dirname ''recombined.png'' = []"
  by (simp add: dirname_def)

lemma hero_loop:
  assumes "files w = files stage3_world"
  shows "recombine_loop ''reenacted'' [hero_record] (w, panel, 0) =
     (print (print w [ResizingFace (JInt 0) [JInt 10, JInt 10]]) [PastingFace (JInt 0) [JInt 5, JInt 6]],
      Inr (Paste panel (Resize (Convert ''RGBA'' (Bitmap 7 (512, 512))) (10, 10)) (5, 6)
                   (Resize (Convert ''RGBA'' (Bitmap 7 (512, 512))) (10, 10)), 1))"
proof -
  have "files w (join ''reenacted'' (basename ''prepared/page1/hero.png''))
          = Some (ImageFile (Bitmap 7 (512, 512)))"
    by (simp add: hero_path assms stage3_files)
  from recombine_face_found [OF hero_fields this, of panel 0]
  show ?thesis by simp
qed

lemma hero_run:
  "recombine_panel stage3_world ''page1.png'' ''prepared/page1/metadata.json''
          ''reenacted'' ''recombined.png''
   = (print (print (print (print (print stage3_world [StartingStage3]) [LoadedPanel ''page1.png''])
               [LoadedMetadata 1 ''prepared/page1/metadata.json''])
               [ResizingFace (JInt 0) [JInt 10, JInt 10]]) [PastingFace (JInt 0) [JInt 5, JInt 6]],
      Inl (FileNotFoundError []))"
proof -
  let ?w0 = "print stage3_world [StartingStage3]"
  let ?w1 = "print ?w0 [LoadedPanel ''page1.png'']"
  let ?w2 = "print ?w1 [LoadedMetadata (Suc 0) ''prepared/page1/metadata.json'']"
  have 1: "Image_open ?w0 ''page1.png'' = Inr (Bitmap 0 (800, 600))"
    by (simp add: Image_open_image stage3_files)
  have 2: "json_load ?w1 ''prepared/page1/metadata.json'' = Inr [hero_record]"
    by (simp add: json_load_doc stage3_files)
  have 3: "recombine_loop ''reenacted'' [hero_record] (?w2, Convert ''RGBA'' (Bitmap 0 (800, 600)), 0)
     = (print (print ?w2 [ResizingFace (JInt 0) [JInt 10, JInt 10]]) [PastingFace (JInt 0) [JInt 5, JInt 6]],
        Inr (Paste (Convert ''RGBA'' (Bitmap 0 (800, 600)))
               (Resize (Convert ''RGBA'' (Bitmap 7 (512, 512))) (10, 10)) (5, 6)
               (Resize (Convert ''RGBA'' (Bitmap 7 (512, 512))) (10, 10)), 1))"
    by (rule hero_loop) simp
  show ?thesis
    by (simp add: recombine_panel_def Let_def 1 2 3 makedirs_def dirname_bare
          del: recombine_loop.simps)
qed

text \<open>
  Claim C7. The output should be written whenever at least one record was pasted. With the
  output path \<open>recombined.png\<close>, which has no directory part, one record is pasted, then
  \<^verbatim>\<open>os.makedirs\<close> is called with the empty name and raises \<^verbatim>\<open>FileNotFoundError\<close>: nothing
  is written.
\<close>

theorem bare_output_name_not_written:
  "snd (recombine_panel stage3_world ''page1.png'' ''prepared/page1/metadata.json''
          ''reenacted'' ''recombined.png'') = Inl (FileNotFoundError [])
   \<and> files (fst (recombine_panel stage3_world ''page1.png'' ''prepared/page1/metadata.json''
          ''reenacted'' ''recombined.png'')) ''recombined.png'' = None
   \<and> stdout (fst (recombine_panel stage3_world ''page1.png'' ''prepared/page1/metadata.json''
          ''reenacted'' ''recombined.png''))
       = [StartingStage3, LoadedPanel ''page1.png'',
          LoadedMetadata 1 ''prepared/page1/metadata.json'',
          ResizingFace (JInt 0) [JInt 10, JInt 10], PastingFace (JInt 0) [JInt 5, JInt 6]]"
  by (simp add: hero_run stage3_files) (simp add: stage3_world_def)

end
